theory Spec2Isabelle
  imports Complex_Main
begin

section \<open>Exceptions\<close>

text \<open>
  The Python exceptions the modelled code can raise. A function that can raise returns
  \<open>error + 'a\<close>, with \<open>Inl\<close> for the exception. \<open>Exception\<close> carries the fixed part
  of the message of a \<^verbatim>\<open>raise Exception(...)\<close>.
\<close>

datatype error =
    KeyError
  | IndexError
  | ValueError
  | ZeroDivisionError
  | TypeError
  | AttributeError
  | NameError
  | StopIteration
  | Exception string

definition bind :: "error + 'a \<Rightarrow> ('a \<Rightarrow> error + 'b) \<Rightarrow> error + 'b" where
  "bind m f = (case m of Inl e \<Rightarrow> Inl e | Inr x \<Rightarrow> f x)"

text \<open>\<^verbatim>\<open>xs.index(x)\<close>: the first position of \<open>x\<close>, ValueError when there is none.\<close>

fun index_from :: "nat \<Rightarrow> 'a list \<Rightarrow> 'a \<Rightarrow> error + nat" where
  "index_from n [] x = Inl ValueError"
| "index_from n (y # ys) x = (if y = x then Inr n else index_from (Suc n) ys x)"

definition index :: "'a list \<Rightarrow> 'a \<Rightarrow> error + nat" where
  "index xs x = index_from 0 xs x"

text \<open>
  Subscripting a list, \<^verbatim>\<open>xs[i]\<close>. Positions \<open>0 .. len - 1\<close> read from the front,
  positions \<open>-len .. -1\<close> from the back, and anything else raises IndexError.
\<close>

definition getitem :: "'a list \<Rightarrow> int \<Rightarrow> error + 'a" where
  "getitem xs i =
     (if 0 \<le> i \<and> i < int (length xs) then Inr (xs ! nat i)
      else if i < 0 \<and> - int (length xs) \<le> i then Inr (xs ! nat (int (length xs) + i))
      else Inl IndexError)"

section \<open>examples/path\_gen.py\<close>

text \<open>
  The branches other than \<^verbatim>\<open>"uniform"\<close> compute in floating point. The model does not
  say what float arithmetic returns: the three float expressions of the source are
  arguments, each giving the integer that the source gets from it, or the exception it
  raises:
  \<^item> \<open>float_share L w t\<close> for \<^verbatim>\<open>int(end_to_end_distance * (w / total_weight))\<close>;
  \<^item> \<open>float_base_edge L e m\<close> for
    \<^verbatim>\<open>int(end_to_end_distance / (num_edges + 1.2 * num_middle))\<close>;
  \<^item> \<open>float_middle b\<close> for \<^verbatim>\<open>int(base_edge_distance * 1.2)\<close>.
\<close>

record float_expr =
  float_share :: "int \<Rightarrow> int \<Rightarrow> int \<Rightarrow> error + int"
  float_base_edge :: "int \<Rightarrow> int \<Rightarrow> int \<Rightarrow> error + int"
  float_middle :: "int \<Rightarrow> error + int"

text \<open>A list comprehension evaluates its items in order and stops at the first exception.\<close>

fun comprehension :: "('a \<Rightarrow> error + 'b) \<Rightarrow> 'a list \<Rightarrow> error + 'b list" where
  "comprehension f [] = Inr []"
| "comprehension f (x # xs) =
     bind (f x) (\<lambda>y. bind (comprehension f xs) (\<lambda>ys. Inr (y # ys)))"

definition compute_distances_distribution :: "float_expr \<Rightarrow> int \<Rightarrow> int \<Rightarrow> string
    \<Rightarrow> error + int list" where
  "compute_distances_distribution fx end_to_end_distance number_of_routers distance_proportion =
     (let total_segments = number_of_routers + 1 in
      if number_of_routers = 0 then Inr [end_to_end_distance]
      else if distance_proportion = ''uniform'' then
        (if total_segments = 0 then Inl ZeroDivisionError
         else let segment_length = end_to_end_distance div total_segments
              in Inr (replicate (nat total_segments) segment_length))
      else if distance_proportion = ''increasing'' then
        (let weights = map (\<lambda>i. 2 * int i + 1) [0..<nat total_segments];
             total_weight = sum_list weights
         in comprehension (\<lambda>w. float_share fx end_to_end_distance w total_weight) weights)
      else if distance_proportion = ''decreasing'' then
        (let weights = rev (map (\<lambda>i. 2 * int i + 1) [0..<nat total_segments]);
             total_weight = sum_list weights
         in comprehension (\<lambda>w. float_share fx end_to_end_distance w total_weight) weights)
      else if distance_proportion = ''mid_bottleneck'' then
        (if total_segments \<le> 2 then
           (if total_segments = 0 then Inl ZeroDivisionError
            else Inr (replicate (nat total_segments) (end_to_end_distance div total_segments)))
         else
           let is_even = (total_segments mod 2 = 0);
               num_middle = (if is_even then 2 else 1);
               num_edges = total_segments - num_middle
           in bind (float_base_edge fx end_to_end_distance num_edges num_middle)
                (\<lambda>base_edge_distance.
              bind (float_middle fx base_edge_distance) (\<lambda>middle_distance.
                Inr (replicate (nat (num_edges div 2)) base_edge_distance
                     @ replicate (nat num_middle) middle_distance
                     @ replicate (nat (num_edges div 2)) base_edge_distance))))
      else Inl ValueError)"

section \<open>qns/entity/qchannel/link\_arch.py\<close>

text \<open>
  The method \<^verbatim>\<open>success_prob\<close> of the four concrete subclasses of \<^verbatim>\<open>LinkArch\<close>;
  \<^verbatim>\<open>LinkArchDimBkSeq\<close> inherits it from \<^verbatim>\<open>LinkArchDimBk\<close>. The float parameters are
  modelled as real numbers, so \<^verbatim>\<open>10 ** x\<close> is \<open>10 powr x\<close> and the arithmetic is exact.
\<close>

datatype LinkArch = LinkArchDimBk | LinkArchDimBkSeq | LinkArchSr | LinkArchSim

definition LinkArchDimBk_success_prob :: "real \<Rightarrow> real \<Rightarrow> real \<Rightarrow> real \<Rightarrow> real" where
  "LinkArchDimBk_success_prob length_km alpha eta_s eta_d =
     (let p_bsa = 0.5;
          p_l_sb = 10 powr (- alpha * length_km / 2 / 10);
          eta_sb = eta_s * eta_d * p_l_sb
      in p_bsa * eta_sb ^ 2)"

definition LinkArchSr_success_prob :: "real \<Rightarrow> real \<Rightarrow> real \<Rightarrow> real \<Rightarrow> real" where
  "LinkArchSr_success_prob length_km alpha eta_s eta_d =
     (let p_l_sr = 10 powr (- alpha * length_km / 10);
          eta_sr = eta_s * eta_d * p_l_sr
      in eta_sr)"

definition LinkArchSim_success_prob :: "real \<Rightarrow> real \<Rightarrow> real \<Rightarrow> real \<Rightarrow> real" where
  "LinkArchSim_success_prob length_km alpha eta_s eta_d =
     (let p_l_sb = 10 powr (- alpha * length_km / 2 / 10);
          eta_rr = (eta_d * p_l_sb) ^ 2
      in eta_rr)"

text \<open>Method dispatch: the subclass \<^verbatim>\<open>LinkArchDimBkSeq\<close> runs the inherited method.\<close>

fun success_prob :: "LinkArch \<Rightarrow> real \<Rightarrow> real \<Rightarrow> real \<Rightarrow> real \<Rightarrow> real" where
  "success_prob LinkArchDimBk = LinkArchDimBk_success_prob"
| "success_prob LinkArchDimBkSeq = LinkArchDimBk_success_prob"
| "success_prob LinkArchSr = LinkArchSr_success_prob"
| "success_prob LinkArchSim = LinkArchSim_success_prob"

section \<open>qns/network/proactive/fib.py\<close>

record FIBEntry =
  path_id :: int
  request_id :: int
  path_vector :: "string list"
  swap_sequence :: "int list"
  purification_scheme :: "(string \<times> int) list"

record ForwardingInformationBase =
  table :: "int \<rightharpoonup> FIBEntry"
  req_path_map :: "int \<rightharpoonup> int set"

definition fib_init :: ForwardingInformationBase where
  "fib_init = \<lparr>table = Map.empty, req_path_map = Map.empty\<rparr>"

text \<open>\<^verbatim>\<open>d[k]\<close> on a dict: KeyError when the key is absent.\<close>

definition dict_getitem :: "('k \<rightharpoonup> 'v) \<Rightarrow> 'k \<Rightarrow> error + 'v" where
  "dict_getitem d k = (case d k of None \<Rightarrow> Inl KeyError | Some v \<Rightarrow> Inr v)"

text \<open>
  \<^verbatim>\<open>get\<close> returns its result together with the table it leaves behind. The
  \<^verbatim>\<open>except KeyError\<close> clause turns the KeyError of the lookup into IndexError.
\<close>

definition get :: "ForwardingInformationBase \<Rightarrow> int
    \<Rightarrow> (error + FIBEntry) \<times> ForwardingInformationBase" where
  "get fib pid =
     (case dict_getitem (table fib) pid of
        Inr entry \<Rightarrow> (Inr entry, fib)
      | Inl KeyError \<Rightarrow> (Inl IndexError, fib)
      | Inl e \<Rightarrow> (Inl e, fib))"

definition erase :: "ForwardingInformationBase \<Rightarrow> int \<Rightarrow> error + ForwardingInformationBase" where
  "erase fib pid =
     (case dict_getitem (table fib) pid of
        Inl e \<Rightarrow> Inr fib
      | Inr entry \<Rightarrow>
          let fib1 = fib\<lparr>table := (table fib)(pid := None)\<rparr>;
              rid = request_id entry
          in bind (dict_getitem (req_path_map fib1) rid) (\<lambda>paths.
               if pid \<notin> paths then Inl KeyError
               else let paths' = paths - {pid}
                    in if paths' = {}
                       then Inr (fib1\<lparr>req_path_map := (req_path_map fib1)(rid := None)\<rparr>)
                       else Inr (fib1\<lparr>req_path_map := (req_path_map fib1)(rid \<mapsto> paths')\<rparr>)))"

definition insert_or_replace :: "ForwardingInformationBase \<Rightarrow> FIBEntry
    \<Rightarrow> error + ForwardingInformationBase" where
  "insert_or_replace fib entry =
     (let pid = path_id entry
      in bind (erase fib pid) (\<lambda>fib1.
           let fib2 = fib1\<lparr>table := (table fib1)(pid \<mapsto> entry)\<rparr>;
               rid = request_id entry;
               paths = (case req_path_map fib2 rid of None \<Rightarrow> {} | Some ps \<Rightarrow> ps)
           in Inr (fib2\<lparr>req_path_map := (req_path_map fib2)(rid \<mapsto> insert pid paths)\<rparr>)))"

definition list_path_ids_by_request_id :: "ForwardingInformationBase \<Rightarrow> int \<Rightarrow> int set" where
  "list_path_ids_by_request_id fib rid =
     (case req_path_map fib rid of None \<Rightarrow> {} | Some ps \<Rightarrow> ps)"

text \<open>
  The tables an instance can hold: the one \<^verbatim>\<open>__init__\<close> builds, and any table a
  call of \<^verbatim>\<open>insert_or_replace\<close> or \<^verbatim>\<open>erase\<close> returns normally from such a table.
\<close>

inductive reachable :: "ForwardingInformationBase \<Rightarrow> bool" where
  init: "reachable fib_init"
| ins: "reachable fib \<Longrightarrow> insert_or_replace fib entry = Inr fib' \<Longrightarrow> reachable fib'"
| del: "reachable fib \<Longrightarrow> erase fib pid = Inr fib' \<Longrightarrow> reachable fib'"

text \<open>The two indices agree: the invariant of every reachable table.\<close>

definition consistent :: "ForwardingInformationBase \<Rightarrow> bool" where
  "consistent fib \<longleftrightarrow>
     (\<forall>pid entry. table fib pid = Some entry \<longrightarrow>
        path_id entry = pid \<and>
        (\<exists>ps. req_path_map fib (request_id entry) = Some ps \<and> pid \<in> ps)) \<and>
     (\<forall>rid ps. req_path_map fib rid = Some ps \<longrightarrow>
        ps \<noteq> {} \<and> (\<forall>pid \<in> ps. \<exists>entry. table fib pid = Some entry \<and> request_id entry = rid))"

section \<open>Entangled pairs, memories, channels and events\<close>

text \<open>
  The forwarder and the link layer rest on classes that are not among the sources:
  the entangled pair, the quantum memory and its qubits, the channels, the simulator and
  the forwarder's own table of paths. This section models them from the specification.
  Times are real numbers of seconds; nodes are known by their names.
\<close>

text \<open>
  Modelled from the spec: the enumerations \<^verbatim>\<open>TimingModeEnum\<close> and \<^verbatim>\<open>SignalTypeEnum\<close>
  of the missing module \<^verbatim>\<open>qns.network\<close>, with the members the sources name.
\<close>

datatype TimingModeEnum = ASYNC | LSYNC | SYNC

datatype SignalTypeEnum = INTERNAL | EXTERNAL | EXTERNAL_START

text \<open>
  Modelled from the spec: the class \<^verbatim>\<open>WernerStateEntanglement\<close> is missing. An EPR pair
  has an identity, two endpoints, a fidelity, a decoherence time, an optional path id, an
  optional channel index and the pairs it was swapped from (here their names; empty for
  an elementary pair). \<open>is_decoherenced\<close> marks a pair whose photon was lost.
\<close>

record WernerStateEntanglement =
  name :: string
  src :: string
  dst :: string
  fidelity :: real
  decoherence_time :: real
  epr_path_id :: "int option"
  ch_index :: "int option"
  orig_eprs :: "string list"
  is_decoherenced :: bool

text \<open>
  Modelled from the spec: the constructor \<^verbatim>\<open>WernerStateEntanglement(fidelity, name)\<close> is
  missing. It builds an elementary pair that belongs to no path yet.
\<close>

definition new_WernerStateEntanglement :: "real \<Rightarrow> string \<Rightarrow> WernerStateEntanglement" where
  "new_WernerStateEntanglement f n =
     \<lparr>name = n, src = [], dst = [], fidelity = f, decoherence_time = 0,
      epr_path_id = None, ch_index = None, orig_eprs = [], is_decoherenced = False\<rparr>"

text \<open>
  Modelled from the spec: the classes \<^verbatim>\<open>MemoryQubit\<close> and \<^verbatim>\<open>QuantumMemory\<close> are
  missing. A memory is a fixed list of slots; the address of a slot is its position. A
  slot pairs a qubit (the path it is reserved for, and its place in the life cycle) with
  the EPR it holds, if any. Of the spec's slot states, FREE, RESERVED and OCCUPIED are
  read off the slot: it is occupied when it holds an EPR, reserved when it holds none
  and has a path id, free when it has neither. The other states are the qubit's
  \<open>fsm\<close>. The decoherence timers of the memory are outside this model.
\<close>

datatype QubitState = ENTANGLED | PURIF | ELIGIBLE | SWAPPING | CONSUMED | RELEASED | DECOHERED

record MemoryQubit =
  pid :: "int option"
  fsm :: QubitState

type_synonym slot = "MemoryQubit \<times> WernerStateEntanglement option"

record QuantumMemory =
  mem_name :: string
  storage :: "slot list"

text \<open>
  Modelled from the spec: the properties \<^verbatim>\<open>capacity\<close> and \<^verbatim>\<open>free\<close> of a memory, the
  number of its slots and the number of its free slots.
\<close>

definition capacity :: "QuantumMemory \<Rightarrow> int" where
  "capacity m = int (length (storage m))"

definition is_free :: "slot \<Rightarrow> bool" where
  "is_free sl \<longleftrightarrow> snd sl = None \<and> pid (fst sl) = None"

definition mem_free :: "QuantumMemory \<Rightarrow> int" where
  "mem_free m = int (length (filter is_free (storage m)))"

text \<open>
  Modelled from the spec: how the memory finds the slot that \<^verbatim>\<open>get\<close>, \<^verbatim>\<open>read\<close> and
  \<^verbatim>\<open>update\<close> work on. A slot is named by \<^verbatim>\<open>key\<close>, the name of the EPR it holds (the
  first such slot is taken), or by its address; the sources pass an address under
  either keyword.
\<close>

datatype selector = Key string | Address int

fun find_slot :: "(slot \<Rightarrow> bool) \<Rightarrow> nat \<Rightarrow> slot list \<Rightarrow> nat option" where
  "find_slot P i [] = None"
| "find_slot P i (sl # sls) = (if P sl then Some i else find_slot P (Suc i) sls)"

definition holds_named :: "string \<Rightarrow> slot \<Rightarrow> bool" where
  "holds_named n sl = (case snd sl of None \<Rightarrow> False | Some e \<Rightarrow> name e = n)"

definition mem_search :: "QuantumMemory \<Rightarrow> selector \<Rightarrow> nat option" where
  "mem_search m sel =
     (case sel of
        Address a \<Rightarrow> if 0 \<le> a \<and> a < capacity m then Some (nat a) else None
      | Key n \<Rightarrow> find_slot (holds_named n) 0 (storage m))"

text \<open>
  Modelled from the spec: \<^verbatim>\<open>get(key|address)\<close>, the non-destructive inspection. It
  returns the address, the qubit and the EPR, or \<^verbatim>\<open>None\<close> when no slot is found or the
  slot is empty (the memory's test reads an emptied slot and gets \<^verbatim>\<open>None\<close>).
\<close>

definition mem_get :: "QuantumMemory \<Rightarrow> selector
    \<Rightarrow> (int \<times> MemoryQubit \<times> WernerStateEntanglement) option" where
  "mem_get m sel =
     (case mem_search m sel of
        None \<Rightarrow> None
      | Some i \<Rightarrow> (case snd (storage m ! i) of
                     None \<Rightarrow> None
                   | Some e \<Rightarrow> Some (int i, fst (storage m ! i), e)))"

text \<open>
  Modelled from the spec: \<^verbatim>\<open>read(key|address)\<close>, the destructive read. It returns what
  \<^verbatim>\<open>get\<close> returns and empties the slot; the qubit keeps its path id.
\<close>

definition mem_read :: "QuantumMemory \<Rightarrow> selector
    \<Rightarrow> (int \<times> MemoryQubit \<times> WernerStateEntanglement) option \<times> QuantumMemory" where
  "mem_read m sel =
     (case mem_get m sel of
        None \<Rightarrow> (None, m)
      | Some (a, q, e) \<Rightarrow> (Some (a, q, e), m\<lparr>storage := (storage m)[nat a := (q, None)]\<rparr>))"

text \<open>
  Modelled from the spec: \<^verbatim>\<open>write\<close> stores an EPR. With an address it uses that slot;
  else with a path id the first empty slot reserved for that path; else the first free
  slot. It returns the address and the qubit of the slot, or \<^verbatim>\<open>None\<close> when there is no
  candidate slot.
\<close>

definition write_candidate :: "QuantumMemory \<Rightarrow> int option \<Rightarrow> int option \<Rightarrow> nat option" where
  "write_candidate m path address =
     (case address of
        Some a \<Rightarrow> (if 0 \<le> a \<and> a < capacity m \<and> snd (storage m ! nat a) = None
                   then Some (nat a) else None)
      | None \<Rightarrow>
          (case path of
             Some p \<Rightarrow> find_slot (\<lambda>sl. snd sl = None \<and> pid (fst sl) = Some p) 0 (storage m)
           | None \<Rightarrow> find_slot is_free 0 (storage m)))"

definition mem_write :: "QuantumMemory \<Rightarrow> WernerStateEntanglement \<Rightarrow> int option \<Rightarrow> int option
    \<Rightarrow> (int \<times> MemoryQubit) option \<times> QuantumMemory" where
  "mem_write m qm path address =
     (case write_candidate m path address of
        None \<Rightarrow> (None, m)
      | Some i \<Rightarrow> (Some (int i, fst (storage m ! i)),
                   m\<lparr>storage := (storage m)[i := (fst (storage m ! i), Some qm)]\<rparr>))"

text \<open>
  Modelled from the spec: \<^verbatim>\<open>update(old_qm, new_qm)\<close> rewrites the EPR of the slot that
  holds \<^verbatim>\<open>old_qm\<close> and tells whether there was one.
\<close>

definition mem_update :: "QuantumMemory \<Rightarrow> string \<Rightarrow> WernerStateEntanglement
    \<Rightarrow> bool \<times> QuantumMemory" where
  "mem_update m old_qm new_qm =
     (case mem_search m (Key old_qm) of
        None \<Rightarrow> (False, m)
      | Some i \<Rightarrow> (True, m\<lparr>storage := (storage m)[i := (fst (storage m ! i), Some new_qm)]\<rparr>))"

text \<open>
  Modelled from the spec: \<^verbatim>\<open>allocate(path_id)\<close> reserves the first free slot for a path
  and returns its address; the memory's test shows the failure value \<open>-1\<close>.
\<close>

definition mem_allocate :: "QuantumMemory \<Rightarrow> int \<Rightarrow> int \<times> QuantumMemory" where
  "mem_allocate m p =
     (case find_slot is_free 0 (storage m) of
        None \<Rightarrow> (- 1, m)
      | Some i \<Rightarrow> (int i,
                   m\<lparr>storage := (storage m)[i := ((fst (storage m ! i))\<lparr>pid := Some p\<rparr>,
                                                    snd (storage m ! i))]\<rparr>))"

text \<open>
  Modelled from the spec: \<^verbatim>\<open>search_eligible_qubits(pid)\<close> lists, by address, the slots
  in the ELIGIBLE state that are bound to the path.
\<close>

fun eligible_from :: "nat \<Rightarrow> slot list \<Rightarrow> int
    \<Rightarrow> (int \<times> WernerStateEntanglement option) list" where
  "eligible_from i [] p = []"
| "eligible_from i (sl # sls) p =
     (if fsm (fst sl) = ELIGIBLE \<and> pid (fst sl) = Some p
      then (int i, snd sl) # eligible_from (Suc i) sls p
      else eligible_from (Suc i) sls p)"

definition mem_search_eligible_qubits :: "QuantumMemory \<Rightarrow> int
    \<Rightarrow> (int \<times> WernerStateEntanglement option) list" where
  "mem_search_eligible_qubits m p = eligible_from 0 (storage m) p"

text \<open>
  Modelled from the spec: the transitions of a qubit's \<^verbatim>\<open>fsm\<close> (\<^verbatim>\<open>to_entangled\<close>,
  \<^verbatim>\<open>to_purif\<close>, \<^verbatim>\<open>to_eligible\<close>, \<^verbatim>\<open>to_release\<close>) move it to the state they name.
  The qubit is the one at the given address of the memory.
\<close>

definition to_state :: "QubitState \<Rightarrow> QuantumMemory \<Rightarrow> int \<Rightarrow> QuantumMemory" where
  "to_state st m a =
     (if 0 \<le> a \<and> a < capacity m
      then m\<lparr>storage := (storage m)[nat a := ((fst (storage m ! nat a))\<lparr>fsm := st\<rparr>,
                                                snd (storage m ! nat a))]\<rparr>
      else m)"

text \<open>
  Modelled from the spec: channels are delay pipes between two endpoints. A quantum
  channel has a name, shared with the memory that serves it.
\<close>

record QuantumChannel =
  qc_name :: string
  qc_node_list :: "string \<times> string"
  qc_delay :: real

record ClassicChannel =
  cc_delay :: real


text \<open>
  Modelled from the spec: the messages. A SWAP\_UPDATE carries
  \<^verbatim>\<open>{cmd, path_id, swapping_node, partner, epr, new_epr|null, destination, fwd}\<close>, a
  link-layer herald \<^verbatim>\<open>{cmd, path_id, epr_id}\<close>. A classic packet is a message with its
  source and destination.
\<close>

record swap_update =
  su_cmd :: string
  su_path_id :: int
  su_swapping_node :: string
  su_partner :: string
  su_epr :: string
  su_new_epr :: "WernerStateEntanglement option"
  su_destination :: string
  su_fwd :: bool

record herald =
  h_cmd :: string
  h_path_id :: "int option"
  h_epr_id :: string

datatype message = SwapUpdate swap_update | Herald herald

datatype ClassicPacket = ClassicPacket message string string

text \<open>
  What a node hands to its channels: \<^verbatim>\<open>cchannel.send(packet, next_hop, delay)\<close>, with
  the delay when one is passed, and \<^verbatim>\<open>qchannel.send(epr, next_hop)\<close> with the name of
  the channel.
\<close>

datatype classic_send = ClassicSend ClassicPacket string "real option"

datatype qubit_send = QubitSend string WernerStateEntanglement string

text \<open>
  Modelled from the spec: the events a handler adds to the simulator. A released qubit
  is given by its address, the \<^verbatim>\<open>e2e\<close> flag (false when the caller passes none), the
  time and the name of the memory in \<^verbatim>\<open>by\<close>; an entangled qubit by the neighbour, the
  name of its memory, its address and the time.
\<close>

datatype TypeEnum = ADD | REMOVE

datatype event =
    QubitReleasedEvent int bool real string
  | QubitEntangledEvent string string int real
  | LinkLayerManageActiveChannels string TypeEnum real

text \<open>
  Modelled from the spec: the module \<^verbatim>\<open>qns.network.protocol.fib\<close> that the forwarder
  imports is missing. Its table maps a path id to the entry \<^verbatim>\<open>add_entry\<close> stores;
  \<^verbatim>\<open>get_entry\<close> returns the entry or \<^verbatim>\<open>None\<close>.
\<close>

record fib_entry =
  e_path_id :: int
  e_path_vector :: "string list"
  e_swap_sequence :: "int list"
  e_purification_scheme :: "(string \<times> int) list"
  e_qubit_addresses :: "int list"

section \<open>The node\<close>

text \<open>
  Modelled from the spec: the classes \<^verbatim>\<open>QNode\<close> and \<^verbatim>\<open>Simulator\<close> are missing. One
  record holds what the two applications of a node read and write: the node itself
  (name, timing mode, memories in their order, the channel to each neighbour), the
  fields of \<^verbatim>\<open>ProactiveRouting\<close> (\<open>ps\<close> to \<open>e2e_count\<close>), the fields of \<^verbatim>\<open>LinkLayer\<close>
  (\<open>init_fidelity\<close> to \<open>active_channels\<close>; its phase is \<open>ll_sync_current_phase\<close>), the
  simulator's clock \<open>tc\<close>, and the events and packets handed over so far.
\<close>

record QNode =
  own :: string
  timing_mode :: TimingModeEnum
  memories :: "QuantumMemory list"
  qchannels :: "string \<rightharpoonup> QuantumChannel"
  cchannels :: "string \<rightharpoonup> ClassicChannel"
  ps :: real
  sync_current_phase :: SignalTypeEnum
  fib :: "int \<rightharpoonup> fib_entry"
  parallel_swappings :: "string \<rightharpoonup>
      WernerStateEntanglement \<times> WernerStateEntanglement \<times> WernerStateEntanglement"
  e2e_count :: int
  init_fidelity :: real
  ll_sync_current_phase :: SignalTypeEnum
  active_channels :: "string \<rightharpoonup> QuantumChannel \<times> string"
  tc :: real
  events :: "event list"
  csent :: "classic_send list"
  qsent :: "qubit_send list"

text \<open>\<^verbatim>\<open>next(qmem for qmem in self.memories if qmem.name == n)\<close>: the position of the
  first memory of that name, StopIteration when there is none.\<close>

fun memory_named :: "nat \<Rightarrow> QuantumMemory list \<Rightarrow> string \<Rightarrow> error + nat" where
  "memory_named i [] n = Inl StopIteration"
| "memory_named i (qm # qms) n = (if mem_name qm = n then Inr i else memory_named (Suc i) qms n)"

text \<open>A handler changes one memory of the node in place.\<close>

definition set_memory :: "QNode \<Rightarrow> nat \<Rightarrow> QuantumMemory \<Rightarrow> QNode" where
  "set_memory s i m = s\<lparr>memories := (memories s)[i := m]\<rparr>"

definition add_event :: "QNode \<Rightarrow> event \<Rightarrow> QNode" where
  "add_event s ev = s\<lparr>events := events s @ [ev]\<rparr>"

section \<open>qns/network/protocol/proactive\_routing.py\<close>

text \<open>
  The guard of \<^verbatim>\<open>handle_signaling\<close> and \<^verbatim>\<open>eligible\<close> in SYNC mode outside the INTERNAL
  phase calls \<^verbatim>\<open>debug.log\<close>; the module imports no name \<^verbatim>\<open>debug\<close>, so the call raises
  NameError before the \<^verbatim>\<open>return\<close> that follows it.
\<close>

definition phase_is_over :: "QNode \<Rightarrow> bool" where
  "phase_is_over s \<longleftrightarrow> timing_mode s = SYNC \<and> sync_current_phase s \<noteq> INTERNAL"

fun get_memory_qubit_from :: "nat \<Rightarrow> QuantumMemory list \<Rightarrow> string \<Rightarrow> (nat \<times> int) option" where
  "get_memory_qubit_from i [] epr_name = None"
| "get_memory_qubit_from i (qm # qms) epr_name =
     (case mem_get qm (Key epr_name) of
        Some res \<Rightarrow> Some (i, fst res)
      | None \<Rightarrow> get_memory_qubit_from (Suc i) qms epr_name)"

text \<open>The memory is returned as its position among the node's memories, the qubit as
  its address.\<close>

definition get_memory_qubit :: "QNode \<Rightarrow> string \<Rightarrow> (nat \<times> int) option" where
  "get_memory_qubit s epr_name = get_memory_qubit_from 0 (memories s) epr_name"

fun check_eligible_from :: "nat \<Rightarrow> QuantumMemory list \<Rightarrow> string \<Rightarrow> int
    \<Rightarrow> (nat \<times> (int \<times> WernerStateEntanglement option) list) option" where
  "check_eligible_from j [] n p = None"
| "check_eligible_from j (qm # qms) n p =
     (if mem_name qm \<noteq> n \<and> mem_search_eligible_qubits qm p \<noteq> []
      then Some (j, mem_search_eligible_qubits qm p)
      else check_eligible_from (Suc j) qms n p)"

definition check_eligible_qubit :: "QNode \<Rightarrow> nat \<Rightarrow> int
    \<Rightarrow> (nat \<times> (int \<times> WernerStateEntanglement option) list) option" where
  "check_eligible_qubit s qmem p =
     check_eligible_from 0 (memories s) (mem_name (memories s ! qmem)) p"

definition compute_qubit_allocation :: "string list \<Rightarrow> int list \<Rightarrow> string
    \<Rightarrow> error + int option \<times> int option" where
  "compute_qubit_allocation path m_v node =
     (case index path node of
        Inl e \<Rightarrow> Inr (None, None)
      | Inr idx \<Rightarrow>
          bind (if 0 < idx then bind (getitem m_v (int idx - 1)) (\<lambda>v. Inr (Some v))
                else Inr None) (\<lambda>prev_qubits.
          bind (if idx < length m_v then bind (getitem m_v (int idx)) (\<lambda>v. Inr (Some v))
                else Inr None) (\<lambda>next_qubits.
            Inr (prev_qubits, next_qubits))))"

definition eval_swapping_conditions :: "QNode \<Rightarrow> fib_entry \<Rightarrow> string \<Rightarrow> error + bool" where
  "eval_swapping_conditions s fib_entry partner =
     (let route = e_path_vector fib_entry;
          seq = e_swap_sequence fib_entry
      in bind (index route partner) (\<lambda>partner_idx.
         bind (getitem seq (int partner_idx)) (\<lambda>partner_rank.
         bind (index route (own s)) (\<lambda>own_idx.
         bind (getitem seq (int own_idx)) (\<lambda>own_rank.
           Inr (partner_rank \<ge> own_rank))))))"

text \<open>
  \<^verbatim>\<open>get_node\<close> finds a node by its name and \<^verbatim>\<open>get_cchannel\<close> the channel to it;
  together they are the lookup of the neighbour's name in \<open>cchannels\<close>.
\<close>

definition send_swap_update :: "QNode \<Rightarrow> string \<Rightarrow> swap_update \<Rightarrow> string list \<Rightarrow> bool
    \<Rightarrow> error + QNode" where
  "send_swap_update s dest msg route delay =
     bind (index route (own s)) (\<lambda>own_idx.
     bind (index route dest) (\<lambda>dest_idx.
     bind (if dest_idx > own_idx then getitem route (int own_idx + 1)
           else getitem route (int own_idx - 1)) (\<lambda>nh.
       case cchannels s nh of
         None \<Rightarrow> Inl (Exception ''No classic channel for dest'')
       | Some cchannel \<Rightarrow>
           let classic_packet = ClassicPacket (SwapUpdate msg) (own s) dest
           in Inr (s\<lparr>csent := csent s @
                       [ClassicSend classic_packet nh
                          (if delay then Some (cc_delay cchannel) else None)]\<rparr>))))"

text \<open>
  The four statements that release a qubit: the destructive read of its slot, the move
  of its \<^verbatim>\<open>fsm\<close> to the released state, and the \<^verbatim>\<open>QubitReleasedEvent\<close> at the current
  time. The result of the read is not used.
\<close>

definition read_and_release :: "QuantumMemory \<Rightarrow> int \<Rightarrow> QuantumMemory" where
  "read_and_release m qubit = to_state RELEASED (snd (mem_read m (Address qubit))) qubit"

definition release_qubit :: "QNode \<Rightarrow> nat \<Rightarrow> int \<Rightarrow> QNode" where
  "release_qubit s qmem qubit =
     (let m = read_and_release (memories s ! qmem) qubit
      in add_event (set_memory s qmem m)
           (QubitReleasedEvent qubit False (tc s) (mem_name m)))"


text \<open>
  \<^verbatim>\<open>eligible\<close>, end node: the \<^verbatim>\<open>else\<close> branch. The read is unpacked, so an empty
  slot raises TypeError.
\<close>

definition eligible_end_node :: "QNode \<Rightarrow> nat \<Rightarrow> int \<Rightarrow> error + QNode" where
  "eligible_end_node s qmem qubit =
     (case mem_read (memories s ! qmem) (Address qubit) of
        (None, m1) \<Rightarrow> Inl TypeError
      | (Some res, m1) \<Rightarrow>
          let m2 = to_state RELEASED m1 qubit;
              s1 = (set_memory s qmem m2)\<lparr>e2e_count := e2e_count s + 1\<rparr>
          in Inr (add_event s1
                    (QubitReleasedEvent qubit (own s = ''S'') (tc s) (mem_name m2))))"

text \<open>
  \<^verbatim>\<open>eligible\<close>, intermediate node, once the two pairs are ordered: the channel indices
  of elementary pairs, the swap, the records for a parallel swap, the two SWAP\_UPDATE
  messages and the release of both qubits. The outcome of \<^verbatim>\<open>swapping\<close> (success with
  probability \<open>ps\<close>, and the new pair) is a parameter; \<open>this_is_prev\<close> tells
  whether the qubit that became eligible holds the pair towards the previous node.
\<close>

definition swap_and_notify ::
  "(real \<Rightarrow> WernerStateEntanglement \<Rightarrow> WernerStateEntanglement \<Rightarrow> WernerStateEntanglement option)
    \<Rightarrow> QNode \<Rightarrow> fib_entry \<Rightarrow> nat \<Rightarrow> nat \<Rightarrow> int \<Rightarrow> nat \<Rightarrow> int \<Rightarrow> bool
    \<Rightarrow> WernerStateEntanglement \<Rightarrow> WernerStateEntanglement \<Rightarrow> error + QNode" where
  "swap_and_notify swapping s fib_entry own_idx qmem qubit other_qmem other_qubit this_is_prev
       prev_epr0 next_epr0 =
     (let route = e_path_vector fib_entry;
          seq = e_swap_sequence fib_entry;
          prev_partner = src prev_epr0;
          next_partner = dst next_epr0;
          prev_epr = (if orig_eprs prev_epr0 = []
                      then prev_epr0\<lparr>ch_index := Some (int own_idx - 1)\<rparr> else prev_epr0);
          next_epr = (if orig_eprs next_epr0 = []
                      then next_epr0\<lparr>ch_index := Some (int own_idx)\<rparr> else next_epr0);
          this_epr = (if this_is_prev then prev_epr else next_epr);
          other_epr = (if this_is_prev then next_epr else prev_epr)
      in bind
           (case swapping (ps s) this_epr other_epr of
              None \<Rightarrow> Inr (None, s)
            | Some swapped \<Rightarrow>
                let new_epr = swapped\<lparr>src := prev_partner, dst := next_partner\<rparr>
                in bind (getitem seq (int own_idx)) (\<lambda>own_rank.
                   bind (index route prev_partner) (\<lambda>prev_p_idx.
                   bind (getitem seq (int prev_p_idx)) (\<lambda>prev_p_rank.
                     let s1 = (if own_rank = prev_p_rank
                               then s\<lparr>parallel_swappings := (parallel_swappings s)
                                        (name prev_epr \<mapsto> (prev_epr, next_epr, new_epr))\<rparr>
                               else s)
                     in bind (index route next_partner) (\<lambda>next_p_idx.
                        bind (getitem seq (int next_p_idx)) (\<lambda>next_p_rank.
                          Inr (Some new_epr,
                               if own_rank = next_p_rank
                               then s1\<lparr>parallel_swappings := (parallel_swappings s1)
                                         (name next_epr \<mapsto> (next_epr, prev_epr, new_epr))\<rparr>
                               else s1)))))))
           (\<lambda>(new_epr, s2).
              let prev_partner_msg =
                    \<lparr>su_cmd = ''SWAP_UPDATE'', su_path_id = e_path_id fib_entry,
                     su_swapping_node = own s, su_partner = next_partner,
                     su_epr = name prev_epr, su_new_epr = new_epr,
                     su_destination = prev_partner, su_fwd = False\<rparr>;
                  next_partner_msg =
                    \<lparr>su_cmd = ''SWAP_UPDATE'', su_path_id = e_path_id fib_entry,
                     su_swapping_node = own s, su_partner = prev_partner,
                     su_epr = name next_epr, su_new_epr = new_epr,
                     su_destination = next_partner, su_fwd = False\<rparr>
              in bind (send_swap_update s2 prev_partner prev_partner_msg route False) (\<lambda>s3.
                 bind (send_swap_update s3 next_partner next_partner_msg route False) (\<lambda>s4.
                   let s5 = set_memory s4 qmem
                              (snd (mem_read (memories s4 ! qmem) (Address qubit)));
                       s6 = set_memory s5 other_qmem
                              (snd (mem_read (memories s5 ! other_qmem) (Address other_qubit)));
                       s7 = set_memory s6 qmem (to_state RELEASED (memories s6 ! qmem) qubit);
                       s8 = set_memory s7 other_qmem
                              (to_state RELEASED (memories s7 ! other_qmem) other_qubit);
                       prev_qubit = (if this_is_prev then qubit else other_qubit);
                       next_qubit = (if this_is_prev then other_qubit else qubit);
                       prev_qmem = (if this_is_prev then qmem else other_qmem);
                       next_qmem = (if this_is_prev then other_qmem else qmem);
                       ev1 = QubitReleasedEvent prev_qubit False (tc s)
                               (mem_name (memories s8 ! prev_qmem));
                       ev2 = QubitReleasedEvent next_qubit False (tc s + 1 / 1000000)
                               (mem_name (memories s8 ! next_qmem))
                   in Inr (add_event (add_event s8 ev1) ev2)))))"

text \<open>
  \<^verbatim>\<open>eligible\<close>, intermediate node: the other eligible qubit is the first one found; the
  pair of this qubit is read with \<^verbatim>\<open>get(...)[1]\<close> (TypeError on an empty slot), and the two
  pairs are ordered by which end of this pair is the node. A slot listed as eligible
  that holds no pair has no \<^verbatim>\<open>src\<close> or \<^verbatim>\<open>dst\<close> to read.
\<close>

definition eligible_intermediate ::
  "(real \<Rightarrow> WernerStateEntanglement \<Rightarrow> WernerStateEntanglement \<Rightarrow> WernerStateEntanglement option)
    \<Rightarrow> QNode \<Rightarrow> nat \<Rightarrow> int \<Rightarrow> fib_entry \<Rightarrow> nat \<Rightarrow> error + QNode" where
  "eligible_intermediate swapping s qmem qubit fib_entry own_idx =
     (case check_eligible_qubit s qmem (e_path_id fib_entry) of
        None \<Rightarrow> Inr s
      | Some (other_qmem, qubits) \<Rightarrow>
          let other_qubit = fst (hd qubits);
              other = snd (hd qubits)
          in (case mem_get (memories s ! qmem) (Address qubit) of
                None \<Rightarrow> Inl TypeError
              | Some (a, q, this_epr) \<Rightarrow>
                  if dst this_epr = own s then
                    (case other of
                       None \<Rightarrow> Inl AttributeError
                     | Some other_epr \<Rightarrow>
                         swap_and_notify swapping s fib_entry own_idx qmem qubit
                           other_qmem other_qubit True this_epr other_epr)
                  else if src this_epr = own s then
                    (case other of
                       None \<Rightarrow> Inl AttributeError
                     | Some other_epr \<Rightarrow>
                         swap_and_notify swapping s fib_entry own_idx qmem qubit
                           other_qmem other_qubit False other_epr this_epr)
                  else Inl (Exception ''Unexpected: swapping EPRs'')))"

definition eligible ::
  "(real \<Rightarrow> WernerStateEntanglement \<Rightarrow> WernerStateEntanglement \<Rightarrow> WernerStateEntanglement option)
    \<Rightarrow> QNode \<Rightarrow> nat \<Rightarrow> int \<Rightarrow> fib_entry \<Rightarrow> error + QNode" where
  "eligible swapping s qmem qubit fib_entry =
     (if phase_is_over s then Inl NameError
      else bind (index (e_path_vector fib_entry) (own s)) (\<lambda>own_idx.
             if 0 < own_idx \<and> int own_idx < int (length (e_path_vector fib_entry)) - 1
             then eligible_intermediate swapping s qmem qubit fib_entry own_idx
             else eligible_end_node s qmem qubit))"

definition purif ::
  "(real \<Rightarrow> WernerStateEntanglement \<Rightarrow> WernerStateEntanglement \<Rightarrow> WernerStateEntanglement option)
    \<Rightarrow> QNode \<Rightarrow> nat \<Rightarrow> int \<Rightarrow> fib_entry \<Rightarrow> string \<Rightarrow> error + QNode" where
  "purif swapping s qmem qubit fib_entry partner =
     eligible swapping (set_memory s qmem (to_state ELIGIBLE (memories s ! qmem) qubit))
       qmem qubit fib_entry"

text \<open>
  \<^verbatim>\<open>msg["new_epr"] is None or msg["new_epr"].decoherence_time <= self._simulator.tc\<close>
\<close>

definition failed_or_decohered :: "QNode \<Rightarrow> swap_update \<Rightarrow> bool" where
  "failed_or_decohered s msg =
     (case su_new_epr msg of None \<Rightarrow> True | Some ne \<Rightarrow> decoherence_time ne \<le> tc s)"

text \<open>The update of the old pair by the new one, shared by both destination branches.\<close>

definition update_qubit :: "QNode \<Rightarrow> nat \<Rightarrow> swap_update \<Rightarrow> bool \<times> QNode" where
  "update_qubit s qmem msg =
     (case su_new_epr msg of
        None \<Rightarrow> (False, s)
      | Some ne \<Rightarrow>
          (fst (mem_update (memories s ! qmem) (su_epr msg) ne),
           set_memory s qmem (snd (mem_update (memories s ! qmem) (su_epr msg) ne))))"

text \<open>
  The branch of a destination that has already swapped in parallel with the sender:
  \<open>rec\<close> is its record \<^verbatim>\<open>(shared_epr, other_epr, my_new_epr)\<close>.
\<close>

definition reconcile ::
  "(real \<Rightarrow> WernerStateEntanglement \<Rightarrow> WernerStateEntanglement \<Rightarrow> WernerStateEntanglement option)
    \<Rightarrow> QNode \<Rightarrow> swap_update \<Rightarrow> fib_entry \<Rightarrow> int
    \<Rightarrow> WernerStateEntanglement \<times> WernerStateEntanglement \<times> WernerStateEntanglement
    \<Rightarrow> error + QNode" where
  "reconcile swapping s msg fib_entry own_rank rec =
     (let route = e_path_vector fib_entry;
          seq = e_swap_sequence fib_entry;
          shared_epr = fst rec;
          other_epr = fst (snd rec);
          my_new_epr = snd (snd rec)
      in if failed_or_decohered s msg then
           (let destination = (if dst other_epr = own s then src other_epr else dst other_epr);
                partner = (if dst other_epr = own s then dst shared_epr else src shared_epr);
                fwd_msg = \<lparr>su_cmd = ''SWAP_UPDATE'', su_path_id = su_path_id msg,
                           su_swapping_node = su_swapping_node msg, su_partner = partner,
                           su_epr = name my_new_epr, su_new_epr = None,
                           su_destination = destination, su_fwd = True\<rparr>
            in bind (send_swap_update s destination fwd_msg route True) (\<lambda>s1.
                 Inr (s1\<lparr>parallel_swappings := (parallel_swappings s1)(su_epr msg := None)\<rparr>)))
         else
           (case su_new_epr msg of
              None \<Rightarrow> Inl AttributeError
            | Some new_epr \<Rightarrow>
                let merged_epr =
                      (case swapping 1 new_epr other_epr of
                         None \<Rightarrow> None
                       | Some merged \<Rightarrow>
                           Some (if dst other_epr = own s
                                 then merged\<lparr>src := src other_epr, dst := dst new_epr\<rparr>
                                 else merged\<lparr>src := src new_epr, dst := dst other_epr\<rparr>));
                    partner = (if dst other_epr = own s then dst new_epr else src new_epr);
                    destination = (if dst other_epr = own s then src other_epr else dst other_epr);
                    fwd_msg = \<lparr>su_cmd = ''SWAP_UPDATE'', su_path_id = su_path_id msg,
                               su_swapping_node = su_swapping_node msg, su_partner = partner,
                               su_epr = name my_new_epr, su_new_epr = merged_epr,
                               su_destination = destination, su_fwd = True\<rparr>
                in bind (send_swap_update s destination fwd_msg route True) (\<lambda>s1.
                     let s2 = s1\<lparr>parallel_swappings :=
                                   (parallel_swappings s1)(su_epr msg := None)\<rparr>
                     in bind (index route partner) (\<lambda>p_idx.
                        bind (getitem seq (int p_idx)) (\<lambda>p_rank.
                          case merged_epr of
                            Some merged \<Rightarrow>
                              if own_rank = p_rank
                              then Inr (s2\<lparr>parallel_swappings := (parallel_swappings s2)
                                             (name new_epr \<mapsto> (new_epr, other_epr, merged))\<rparr>)
                              else Inr s2
                          | None \<Rightarrow> Inr s2)))))"

definition handle_signaling ::
  "(real \<Rightarrow> WernerStateEntanglement \<Rightarrow> WernerStateEntanglement \<Rightarrow> WernerStateEntanglement option)
    \<Rightarrow> QNode \<Rightarrow> swap_update \<Rightarrow> string \<Rightarrow> error + QNode" where
  "handle_signaling swapping s msg packet_dest =
     (if su_cmd msg = ''SWAP_UPDATE'' then
        if phase_is_over s then Inl NameError
        else
          (case fib s (su_path_id msg) of
             None \<Rightarrow> Inl (Exception ''FIB entry not found for path'')
           | Some fib_entry \<Rightarrow>
               let route = e_path_vector fib_entry;
                   seq = e_swap_sequence fib_entry
               in bind (index route (su_swapping_node msg)) (\<lambda>sender_idx.
                  bind (getitem seq (int sender_idx)) (\<lambda>sender_rank.
                  bind (index route (own s)) (\<lambda>own_idx.
                  bind (getitem seq (int own_idx)) (\<lambda>own_rank.
                    if su_destination msg = own s then
                      if own_rank > sender_rank then
                        (case get_memory_qubit s (su_epr msg) of
                           Some (qmem, qubit) \<Rightarrow>
                             if failed_or_decohered s msg then Inr (release_qubit s qmem qubit)
                             else
                               (let updated = fst (update_qubit s qmem msg);
                                    s1 = snd (update_qubit s qmem msg)
                                in if updated then
                                     bind (eval_swapping_conditions s1 fib_entry (su_partner msg))
                                       (\<lambda>ok. if ok
                                              then purif swapping
                                                     (set_memory s1 qmem
                                                        (to_state PURIF (memories s1 ! qmem) qubit))
                                                     qmem qubit fib_entry (su_partner msg)
                                              else Inr s1)
                                   else Inr s1)
                         | None \<Rightarrow> Inr s)
                      else if own_rank = sender_rank then
                        (case get_memory_qubit s (su_epr msg) of
                           Some (qmem, qubit) \<Rightarrow>
                             let s1 = s\<lparr>parallel_swappings :=
                                          (parallel_swappings s)(su_epr msg := None)\<rparr>
                             in if failed_or_decohered s1 msg then Inr (release_qubit s1 qmem qubit)
                                else Inr (snd (update_qubit s1 qmem msg))
                         | None \<Rightarrow>
                             (case parallel_swappings s (su_epr msg) of
                                Some rec \<Rightarrow> reconcile swapping s msg fib_entry own_rank rec
                              | None \<Rightarrow> Inr s))
                      else Inr s
                    else
                      if own_rank \<le> sender_rank
                      then send_swap_update s packet_dest (msg\<lparr>su_fwd := True\<rparr>) route False
                      else Inr s)))))
      else Inr s)"


text \<open>
  The controller's message: \<^verbatim>\<open>{path_id, instructions: {route, swap, purif, mux, m_v}}\<close>,
  where \<^verbatim>\<open>m_v\<close> may be null.
\<close>

record instructions =
  ins_route :: "string list"
  ins_swap :: "int list"
  ins_purif :: "(string \<times> int) list"
  ins_mux :: string
  ins_m_v :: "int list option"

text \<open>\<^verbatim>\<open>for i in range(n): qubits.append(qmem.allocate(path_id=path_id))\<close>\<close>

fun allocate_times :: "nat \<Rightarrow> QuantumMemory \<Rightarrow> int \<Rightarrow> int list \<times> QuantumMemory" where
  "allocate_times 0 m p = ([], m)"
| "allocate_times (Suc n) m p =
     (fst (mem_allocate m p) # fst (allocate_times n (snd (mem_allocate m p)) p),
      snd (allocate_times n (snd (mem_allocate m p)) p))"

text \<open>
  The neighbour's channel and its memory: nothing for no neighbour (or an empty name),
  an exception when the node has no quantum channel to the neighbour, StopIteration
  when no memory has the channel's name.
\<close>

definition neighbor_memory :: "QNode \<Rightarrow> string option \<Rightarrow> error + nat option" where
  "neighbor_memory s neighbor =
     (case neighbor of
        None \<Rightarrow> Inr None
      | Some n \<Rightarrow>
          if n = [] then Inr None
          else (case qchannels s n of
                  None \<Rightarrow> Inl (Exception ''Qchannel not found for neighbor'')
                | Some qchannel \<Rightarrow>
                    bind (memory_named 0 (memories s) (qc_name qchannel)) (\<lambda>i. Inr (Some i))))"

text \<open>The allocation of one side under buffer-space multiplexing with \<^verbatim>\<open>m_v\<close> given.\<close>

definition allocate_requested :: "QNode \<Rightarrow> int option \<Rightarrow> nat option \<Rightarrow> int
    \<Rightarrow> error + int list \<times> QNode" where
  "allocate_requested s num qmem p =
     (case num of
        None \<Rightarrow> Inr ([], s)
      | Some n \<Rightarrow>
          (case qmem of
             None \<Rightarrow> Inr ([], s)
           | Some i \<Rightarrow>
               if n = 0 then Inr ([], s)
               else if n \<ge> mem_free (memories s ! i)
               then Inr (fst (allocate_times (nat n) (memories s ! i) p),
                         set_memory s i (snd (allocate_times (nat n) (memories s ! i) p)))
               else Inl (Exception ''Not enough qubits left for this allocation.'')))"

text \<open>The allocation of one side when \<^verbatim>\<open>m_v\<close> is not given: the whole memory.\<close>

definition allocate_all :: "QNode \<Rightarrow> nat option \<Rightarrow> int \<Rightarrow> error + int list \<times> QNode" where
  "allocate_all s qmem p =
     (case qmem of
        None \<Rightarrow> Inr ([], s)
      | Some i \<Rightarrow>
          if mem_free (memories s ! i) = capacity (memories s ! i)
          then Inr (fst (allocate_times (nat (mem_free (memories s ! i))) (memories s ! i) p),
                    set_memory s i
                      (snd (allocate_times (nat (mem_free (memories s ! i))) (memories s ! i) p)))
          else Inl (Exception ''Memory has allocated qubits and cannot be used with Blocking mux.''))"

definition handle_control :: "QNode \<Rightarrow> int \<Rightarrow> instructions \<Rightarrow> error + QNode" where
  "handle_control s p ins =
     (let route = ins_route ins in
      case index route (own s) of
        Inl e \<Rightarrow> Inl (Exception ''Node not found in route vector'')
      | Inr i \<Rightarrow>
          bind (if 0 < i then bind (getitem route (int i - 1)) (\<lambda>n. Inr (Some n))
                else Inr None) (\<lambda>pn.
          bind (if int i < int (length route) - 1
                then bind (getitem route (int i + 1)) (\<lambda>n. Inr (Some n))
                else Inr None) (\<lambda>nn.
          bind (neighbor_memory s pn) (\<lambda>prev_qmem.
          bind (neighbor_memory s nn) (\<lambda>next_qmem.
          bind
            (if ins_mux ins = ''B'' then
               (case ins_m_v ins of
                  Some (v # vs) \<Rightarrow>
                    bind (compute_qubit_allocation route (v # vs) (own s)) (\<lambda>(num_prev, num_next).
                    bind (allocate_requested s num_prev prev_qmem p) (\<lambda>(prev_qubits, s1).
                    bind (allocate_requested s1 num_next next_qmem p) (\<lambda>(next_qubits, s2).
                      Inr s2)))
                | _ \<Rightarrow>
                    bind (allocate_all s prev_qmem p) (\<lambda>(prev_qubits, s1).
                    bind (allocate_all s1 next_qmem p) (\<lambda>(next_qubits, s2).
                      Inr s2)))
             else Inr s) (\<lambda>s2.
            let s3 = s2\<lparr>fib := (fib s2)
                          (p \<mapsto> \<lparr>e_path_id = p, e_path_vector = route,
                                 e_swap_sequence = ins_swap ins,
                                 e_purification_scheme = ins_purif ins,
                                 e_qubit_addresses = []\<rparr>)\<rparr>
            in (case nn of
                  None \<Rightarrow> Inr s3
                | Some next_neighbor \<Rightarrow>
                    if next_neighbor = [] then Inr s3
                    else Inr (add_event s3
                                (LinkLayerManageActiveChannels next_neighbor ADD (tc s))))))))))"

section \<open>qns/network/protocol/link\_layer.py\<close>

text \<open>The name of a new pair is a fresh \<^verbatim>\<open>uuid4\<close>; it is an argument here.\<close>

definition generate_epr :: "QNode \<Rightarrow> string \<Rightarrow> string \<Rightarrow> WernerStateEntanglement" where
  "generate_epr s uuid dst_node =
     (new_WernerStateEntanglement (init_fidelity s) uuid)\<lparr>src := own s, dst := dst_node\<rparr>"

definition ext_phase_is_over :: "QNode \<Rightarrow> bool" where
  "ext_phase_is_over s \<longleftrightarrow> timing_mode s = SYNC \<and> ll_sync_current_phase s \<noteq> EXTERNAL"

text \<open>
  \<^verbatim>\<open>generate_entanglement\<close>: the memory is given by its position among the node's
  memories. The stored pair is the object that is then flagged with the path id and
  sent, so the flag shows in the memory too.
\<close>

definition generate_entanglement :: "QNode \<Rightarrow> string \<Rightarrow> QuantumChannel \<Rightarrow> string \<Rightarrow> nat
    \<Rightarrow> int option \<Rightarrow> QNode" where
  "generate_entanglement s uuid qchannel next_hop qmemory address =
     (if ext_phase_is_over s then s
      else if active_channels s (qc_name qchannel) = None then s
      else
        let epr = generate_epr s uuid next_hop
        in (case mem_write (memories s ! qmemory) epr None address of
              (None, m) \<Rightarrow> set_memory s qmemory m
            | (Some (a, local_qubit), m) \<Rightarrow>
                let flagged = epr\<lparr>epr_path_id := pid local_qubit\<rparr>;
                    m1 = m\<lparr>storage := (storage m)[nat a := (local_qubit, Some flagged)]\<rparr>
                in (set_memory s qmemory m1)
                     \<lparr>qsent := qsent s @ [QubitSend (qc_name qchannel) flagged next_hop]\<rparr>))"

definition notify_entangled_qubit :: "QNode \<Rightarrow> string \<Rightarrow> nat \<Rightarrow> int \<Rightarrow> real \<Rightarrow> QNode" where
  "notify_entangled_qubit s neighbor qmemory qubit delay =
     (let m = to_state ENTANGLED (memories s ! qmemory) qubit
      in add_event (set_memory s qmemory m)
           (QubitEntangledEvent neighbor (mem_name m) qubit (tc s + delay)))"

definition send_herald :: "QNode \<Rightarrow> string \<Rightarrow> WernerStateEntanglement \<Rightarrow> string \<Rightarrow> QNode" where
  "send_herald s c epr from_node =
     s\<lparr>csent := csent s @
          [ClassicSend
             (ClassicPacket (Herald \<lparr>h_cmd = c, h_path_id = epr_path_id epr, h_epr_id = name epr\<rparr>)
                (own s) from_node)
             from_node None]\<rparr>"

text \<open>
  \<^verbatim>\<open>node_list[0] if node_list[1] == self.own else node_list[1]\<close>: the node at the other
  end of a channel.
\<close>

definition other_end :: "QNode \<Rightarrow> string \<times> string \<Rightarrow> string" where
  "other_end s node_list = (if snd node_list = own s then fst node_list else snd node_list)"

definition handle_distribution :: "QNode \<Rightarrow> QuantumChannel \<Rightarrow> WernerStateEntanglement
    \<Rightarrow> error + QNode" where
  "handle_distribution s qchannel epr =
     (if ext_phase_is_over s then Inr s
      else
        let from_node = other_end s (qc_node_list qchannel)
        in (case cchannels s from_node of
              None \<Rightarrow> Inl (Exception ''No such classic channel'')
            | Some cchannel \<Rightarrow>
                if is_decoherenced epr then Inr (send_herald s ''epr_failed'' epr from_node)
                else
                  bind (memory_named 0 (memories s) (qc_name qchannel)) (\<lambda>qmemory.
                    case mem_write (memories s ! qmemory) epr (epr_path_id epr) None of
                      (None, m) \<Rightarrow>
                        Inr (send_herald (set_memory s qmemory m) ''epr_failed'' epr from_node)
                    | (Some (a, local_qubit), m) \<Rightarrow>
                        Inr (notify_entangled_qubit
                               (send_herald (set_memory s qmemory m) ''epr_succeeded'' epr from_node)
                               from_node qmemory a (cc_delay cchannel)))))"

section \<open>Concrete instances\<close>

text \<open>
  Float expressions for a call that evaluates none: each raises. The uniform branch
  does not look at them.
\<close>

definition no_floats :: float_expr where
  "no_floats = \<lparr>float_share = (\<lambda>l w t. Inl TypeError),
                float_base_edge = (\<lambda>l e m. Inl TypeError),
                float_middle = (\<lambda>b. Inl TypeError)\<rparr>"

text \<open>A table with one entry, and an entry that replaces it under another request.\<close>

definition entry_one :: FIBEntry where
  "entry_one = \<lparr>path_id = 1, request_id = 7, path_vector = [''S'', ''R'', ''D''],
             swap_sequence = [1, 0, 1], purification_scheme = []\<rparr>"

definition entry_two :: FIBEntry where
  "entry_two = \<lparr>path_id = 1, request_id = 8, path_vector = [''S'', ''D''],
             swap_sequence = [0, 0], purification_scheme = []\<rparr>"

definition fib_one :: ForwardingInformationBase where
  "fib_one = \<lparr>table = [1 \<mapsto> entry_one], req_path_map = [7 \<mapsto> {1}]\<rparr>"

text \<open>
  The source \<open>S\<close> of the path \<open>S, R, D\<close> with swap sequence \<open>1, 0, 1\<close>, in ASYNC
  mode. Its one memory has one slot, which holds the pair \<open>e1\<close> shared with \<open>R\<close>.
  The quantum channel to \<open>R\<close> is given with its endpoints in either order.
\<close>

definition epr_e1 :: WernerStateEntanglement where
  "epr_e1 = \<lparr>name = ''e1'', src = ''S'', dst = ''R'', fidelity = 0.99, decoherence_time = 1,
             epr_path_id = Some 0, ch_index = None, orig_eprs = [], is_decoherenced = False\<rparr>"

definition mem_S_R :: QuantumMemory where
  "mem_S_R = \<lparr>mem_name = ''q_S_R'', storage = [(\<lparr>pid = Some 0, fsm = ENTANGLED\<rparr>, Some epr_e1)]\<rparr>"

definition ch_S_R :: QuantumChannel where
  "ch_S_R = \<lparr>qc_name = ''q_S_R'', qc_node_list = (''S'', ''R''), qc_delay = 0.0001\<rparr>"

definition ch_R_S :: QuantumChannel where
  "ch_R_S = \<lparr>qc_name = ''q_S_R'', qc_node_list = (''R'', ''S''), qc_delay = 0.0001\<rparr>"

definition path_S_R_D :: fib_entry where
  "path_S_R_D = \<lparr>e_path_id = 0, e_path_vector = [''S'', ''R'', ''D''], e_swap_sequence = [1, 0, 1],
                 e_purification_scheme = [], e_qubit_addresses = []\<rparr>"

definition node_S :: QNode where
  "node_S = \<lparr>own = ''S'', timing_mode = ASYNC, memories = [mem_S_R],
             qchannels = [''R'' \<mapsto> ch_S_R], cchannels = [''R'' \<mapsto> \<lparr>cc_delay = 0.0001\<rparr>],
             ps = 1, sync_current_phase = INTERNAL, fib = [0 \<mapsto> path_S_R_D],
             parallel_swappings = Map.empty, e2e_count = 0,
             init_fidelity = 0.99, ll_sync_current_phase = EXTERNAL,
             active_channels = [''q_S_R'' \<mapsto> (ch_S_R, ''R'')],
             tc = 0, events = [], csent = [], qsent = []\<rparr>"

text \<open>A half-EPR that arrives at \<open>S\<close> from \<open>R\<close>.\<close>

definition epr_e2 :: WernerStateEntanglement where
  "epr_e2 = \<lparr>name = ''e2'', src = ''R'', dst = ''S'', fidelity = 0.99, decoherence_time = 1,
             epr_path_id = Some 0, ch_index = None, orig_eprs = [], is_decoherenced = False\<rparr>"

text \<open>Two outcomes of \<^verbatim>\<open>swapping\<close>: no new pair, and a new pair named after both.\<close>

definition never_swaps :: "real \<Rightarrow> WernerStateEntanglement \<Rightarrow> WernerStateEntanglement
    \<Rightarrow> WernerStateEntanglement option" where
  "never_swaps p a b = None"

definition always_swaps :: "real \<Rightarrow> WernerStateEntanglement \<Rightarrow> WernerStateEntanglement
    \<Rightarrow> WernerStateEntanglement option" where
  "always_swaps p a b =
     Some (a\<lparr>name := name a @ ''+'' @ name b, orig_eprs := [name a, name b]\<rparr>)"

text \<open>
  The same node under the name \<open>A\<close> as the source of the path \<open>A, R, D\<close>, the path
  \<open>D, R, S\<close> whose destination is \<open>S\<close>, and the node \<open>S\<close> in SYNC mode during the
  EXTERNAL phase.
\<close>

definition path_A_R_D :: fib_entry where
  "path_A_R_D = \<lparr>e_path_id = 0, e_path_vector = [''A'', ''R'', ''D''], e_swap_sequence = [1, 0, 1],
                 e_purification_scheme = [], e_qubit_addresses = []\<rparr>"

definition path_D_R_S :: fib_entry where
  "path_D_R_S = \<lparr>e_path_id = 0, e_path_vector = [''D'', ''R'', ''S''], e_swap_sequence = [1, 0, 1],
                 e_purification_scheme = [], e_qubit_addresses = []\<rparr>"

definition node_A :: QNode where
  "node_A = node_S\<lparr>own := ''A''\<rparr>"

definition node_S_sync_ext :: QNode where
  "node_S_sync_ext = node_S\<lparr>timing_mode := SYNC, sync_current_phase := EXTERNAL\<rparr>"

text \<open>The SWAP\_UPDATE that \<open>R\<close> sends to \<open>S\<close> after a failed swap of \<open>e1\<close>.\<close>

definition su_failed :: swap_update where
  "su_failed = \<lparr>su_cmd = ''SWAP_UPDATE'', su_path_id = 0, su_swapping_node = ''R'',
                su_partner = ''D'', su_epr = ''e1'', su_new_epr = None,
                su_destination = ''S'', su_fwd = False\<rparr>"

text \<open>
  The node \<open>R2\<close> of a path of six nodes whose four routers share rank 1. It has
  swapped \<open>e1\<close> (shared with \<open>R1\<close>) and \<open>e2\<close> (shared with \<open>R3\<close>) into \<open>m1\<close> and
  keeps the record of that swap under \<open>e1\<close>; both its slots are empty. The neighbour
  \<open>R1\<close> has swapped in parallel and reports its new pair, named \<open>n\<close>, between \<open>R0\<close>
  and \<open>R2\<close>. \<open>node_R2_before\<close> is the node before its own swap, \<open>e1\<close> still in its
  first memory, and \<open>su_parallel_failed\<close> the report of a failed swap at \<open>R1\<close>.
\<close>

definition path_six :: fib_entry where
  "path_six = \<lparr>e_path_id = 0, e_path_vector = [''S'', ''R0'', ''R1'', ''R2'', ''R3'', ''D''],
               e_swap_sequence = [0, 1, 1, 1, 1, 0],
               e_purification_scheme = [], e_qubit_addresses = []\<rparr>"

definition pair :: "string \<Rightarrow> string \<Rightarrow> string \<Rightarrow> WernerStateEntanglement" where
  "pair n a b = \<lparr>name = n, src = a, dst = b, fidelity = 0.99, decoherence_time = 5,
                 epr_path_id = Some 0, ch_index = None, orig_eprs = [], is_decoherenced = False\<rparr>"

definition empty_memory :: "string \<Rightarrow> QuantumMemory" where
  "empty_memory n = \<lparr>mem_name = n, storage = [(\<lparr>pid = Some 0, fsm = RELEASED\<rparr>, None)]\<rparr>"

definition node_R2 :: QNode where
  "node_R2 = \<lparr>own = ''R2'', timing_mode = ASYNC,
              memories = [empty_memory ''q_R1_R2'', empty_memory ''q_R2_R3''],
              qchannels = Map.empty,
              cchannels = [''R1'' \<mapsto> \<lparr>cc_delay = 0.0001\<rparr>, ''R3'' \<mapsto> \<lparr>cc_delay = 0.0001\<rparr>],
              ps = 1, sync_current_phase = INTERNAL, fib = [0 \<mapsto> path_six],
              parallel_swappings =
                [''e1'' \<mapsto> (pair ''e1'' ''R1'' ''R2'', pair ''e2'' ''R2'' ''R3'', pair ''m1'' ''R1'' ''R3'')],
              e2e_count = 0, init_fidelity = 0.99, ll_sync_current_phase = EXTERNAL,
              active_channels = Map.empty,
              tc = 0, events = [], csent = [], qsent = []\<rparr>"

definition su_parallel :: "string \<Rightarrow> swap_update" where
  "su_parallel n = \<lparr>su_cmd = ''SWAP_UPDATE'', su_path_id = 0, su_swapping_node = ''R1'',
                    su_partner = ''R0'', su_epr = ''e1'',
                    su_new_epr = Some (pair n ''R0'' ''R2''),
                    su_destination = ''R2'', su_fwd = False\<rparr>"

definition node_R2_before :: QNode where
  "node_R2_before =
     node_R2\<lparr>memories := [\<lparr>mem_name = ''q_R1_R2'',
                               storage = [(\<lparr>pid = Some 0, fsm = ELIGIBLE\<rparr>,
                                           Some (pair ''e1'' ''R1'' ''R2''))]\<rparr>,
                             empty_memory ''q_R2_R3'']\<rparr>"

definition su_parallel_failed :: swap_update where
  "su_parallel_failed = (su_parallel [])\<lparr>su_new_epr := None\<rparr>"

text \<open>The merged pair and the SWAP\_UPDATE that \<open>R2\<close> forwards to \<open>R3\<close>.\<close>

definition merged_pair :: "string \<Rightarrow> WernerStateEntanglement" where
  "merged_pair n = \<lparr>name = n @ ''+e2'', src = ''R0'', dst = ''R3'', fidelity = 0.99,
                    decoherence_time = 5, epr_path_id = Some 0, ch_index = None,
                    orig_eprs = [n, ''e2''], is_decoherenced = False\<rparr>"

definition forwarded :: "string \<Rightarrow> classic_send" where
  "forwarded n =
     ClassicSend
       (ClassicPacket
          (SwapUpdate \<lparr>su_cmd = ''SWAP_UPDATE'', su_path_id = 0, su_swapping_node = ''R1'',
                       su_partner = ''R0'', su_epr = ''m1'', su_new_epr = Some (merged_pair n),
                       su_destination = ''R3'', su_fwd = True\<rparr>)
          ''R2'' ''R3'')
       ''R3'' (Some 0.0001)"

text \<open>
  A run on the path \<open>S, R1, R2, D\<close> with swap sequence \<open>1, 0, 0, 1\<close>: the two
  routers share rank 0. \<open>R1\<close> holds \<open>e0\<close> (shared with \<open>S\<close>) and \<open>e1\<close> (shared
  with \<open>R2\<close>), both ELIGIBLE, and swaps first; \<open>node_R1_swapped\<close> is \<open>R1\<close> after its
  swap, with the record that \<^verbatim>\<open>eligible\<close> keeps under \<open>e1\<close> for the same-rank
  neighbour \<open>R2\<close>. \<open>R2\<close> has not swapped when the SWAP\_UPDATE of \<open>R1\<close> arrives
  (\<open>node_R2_waiting\<close>, then \<open>node_R2_updated\<close>); once its pair \<open>e2\<close> with \<open>D\<close> is
  ELIGIBLE too (\<open>node_R2_ready\<close>) it swaps (\<open>node_R2_swapped\<close>) and reports to \<open>S\<close>
  and \<open>D\<close>.
\<close>

definition path_four :: fib_entry where
  "path_four = \<lparr>e_path_id = 0, e_path_vector = [''S'', ''R1'', ''R2'', ''D''],
                e_swap_sequence = [1, 0, 0, 1],
                e_purification_scheme = [], e_qubit_addresses = []\<rparr>"

definition holding :: "string \<Rightarrow> WernerStateEntanglement \<Rightarrow> QuantumMemory" where
  "holding n e = \<lparr>mem_name = n, storage = [(\<lparr>pid = Some 0, fsm = ELIGIBLE\<rparr>, Some e)]\<rparr>"

definition node_R1 :: QNode where
  "node_R1 = \<lparr>own = ''R1'', timing_mode = ASYNC,
              memories = [holding ''q_S_R1'' (pair ''e0'' ''S'' ''R1''),
                          holding ''q_R1_R2'' (pair ''e1'' ''R1'' ''R2'')],
              qchannels = Map.empty,
              cchannels = [''S'' \<mapsto> \<lparr>cc_delay = 0.0001\<rparr>, ''R2'' \<mapsto> \<lparr>cc_delay = 0.0001\<rparr>],
              ps = 1, sync_current_phase = INTERNAL, fib = [0 \<mapsto> path_four],
              parallel_swappings = Map.empty,
              e2e_count = 0, init_fidelity = 0.99, ll_sync_current_phase = EXTERNAL,
              active_channels = Map.empty,
              tc = 0, events = [], csent = [], qsent = []\<rparr>"

definition swapped_pair :: WernerStateEntanglement where
  "swapped_pair = \<lparr>name = ''e1+e0'', src = ''S'', dst = ''R2'', fidelity = 0.99,
                   decoherence_time = 5, epr_path_id = Some 0, ch_index = Some 1,
                   orig_eprs = [''e1'', ''e0''], is_decoherenced = False\<rparr>"

definition su_R1_to :: "string \<Rightarrow> string \<Rightarrow> string \<Rightarrow> swap_update" where
  "su_R1_to d p e = \<lparr>su_cmd = ''SWAP_UPDATE'', su_path_id = 0, su_swapping_node = ''R1'',
                     su_partner = p, su_epr = e, su_new_epr = Some swapped_pair,
                     su_destination = d, su_fwd = False\<rparr>"

definition kept_record ::
  "WernerStateEntanglement \<times> WernerStateEntanglement \<times> WernerStateEntanglement" where
  "kept_record = ((pair ''e1'' ''R1'' ''R2'')\<lparr>ch_index := Some 1\<rparr>,
                  (pair ''e0'' ''S'' ''R1'')\<lparr>ch_index := Some 0\<rparr>, swapped_pair)"

definition node_R1_swapped :: QNode where
  "node_R1_swapped =
     node_R1\<lparr>memories := [empty_memory ''q_S_R1'', empty_memory ''q_R1_R2''],
              parallel_swappings := [''e1'' \<mapsto> kept_record],
              events := [QubitReleasedEvent 0 False 0 ''q_S_R1'',
                         QubitReleasedEvent 0 False (1 / 1000000) ''q_R1_R2''],
              csent := [ClassicSend (ClassicPacket (SwapUpdate (su_R1_to ''S'' ''R2'' ''e0''))
                                       ''R1'' ''S'') ''S'' None,
                        ClassicSend (ClassicPacket (SwapUpdate (su_R1_to ''R2'' ''S'' ''e1''))
                                       ''R1'' ''R2'') ''R2'' None]\<rparr>"

definition node_R2_waiting :: QNode where
  "node_R2_waiting =
     node_R1\<lparr>own := ''R2'',
              memories := [holding ''q_R1_R2'' (pair ''e1'' ''R1'' ''R2''), empty_memory ''q_R2_D''],
              cchannels := [''R1'' \<mapsto> \<lparr>cc_delay = 0.0001\<rparr>, ''D'' \<mapsto> \<lparr>cc_delay = 0.0001\<rparr>]\<rparr>"

definition node_R2_updated :: QNode where
  "node_R2_updated =
     node_R2_waiting\<lparr>memories := [holding ''q_R1_R2'' swapped_pair, empty_memory ''q_R2_D'']\<rparr>"

definition node_R2_ready :: QNode where
  "node_R2_ready =
     node_R2_updated\<lparr>memories := [holding ''q_R1_R2'' swapped_pair,
                                   holding ''q_R2_D'' (pair ''e2'' ''R2'' ''D'')]\<rparr>"

definition final_pair :: WernerStateEntanglement where
  "final_pair = swapped_pair\<lparr>name := ''e1+e0+e2'', dst := ''D'',
                              orig_eprs := [''e1+e0'', ''e2'']\<rparr>"

definition su_R2_to :: "string \<Rightarrow> string \<Rightarrow> string \<Rightarrow> swap_update" where
  "su_R2_to d p e = \<lparr>su_cmd = ''SWAP_UPDATE'', su_path_id = 0, su_swapping_node = ''R2'',
                     su_partner = p, su_epr = e, su_new_epr = Some final_pair,
                     su_destination = d, su_fwd = False\<rparr>"

definition node_R2_swapped :: QNode where
  "node_R2_swapped =
     node_R2_ready\<lparr>memories := [empty_memory ''q_R1_R2'', empty_memory ''q_R2_D''],
              events := [QubitReleasedEvent 0 False 0 ''q_R1_R2'',
                         QubitReleasedEvent 0 False (1 / 1000000) ''q_R2_D''],
              csent := [ClassicSend (ClassicPacket (SwapUpdate (su_R2_to ''S'' ''D'' ''e1+e0''))
                                       ''R2'' ''S'') ''R1'' None,
                        ClassicSend (ClassicPacket (SwapUpdate (su_R2_to ''D'' ''S'' ''e2''))
                                       ''R2'' ''D'') ''D'' None]\<rparr>"

text \<open>
  The node \<open>S\<close> before any path is installed, its memory of two slots free, and the
  controller's instructions for the path \<open>S, R, D\<close> with a given \<^verbatim>\<open>m_v\<close>.
\<close>

definition free_memory :: QuantumMemory where
  "free_memory = \<lparr>mem_name = ''q_S_R'',
                   storage = [(\<lparr>pid = None, fsm = RELEASED\<rparr>, None),
                              (\<lparr>pid = None, fsm = RELEASED\<rparr>, None)]\<rparr>"

definition node_S_fresh :: QNode where
  "node_S_fresh = node_S\<lparr>memories := [free_memory], fib := Map.empty\<rparr>"

definition install :: "int list \<Rightarrow> instructions" where
  "install m_v = \<lparr>ins_route = [''S'', ''R'', ''D''], ins_swap = [1, 0, 1], ins_purif = [],
                  ins_mux = ''B'', ins_m_v = Some m_v\<rparr>"

section \<open>Segment lengths and success probabilities\<close>

lemma sum_list_replicate_int: "sum_list (replicate n (x::int)) = int n * x"
  by (induction n) (simp_all add: algebra_simps)

lemma floor_div_bounds:
  fixes L m :: int
  assumes "0 < m"
  shows "m * (L div m) \<le> L" and "L - m * (L div m) < m"
proof -
  have eq: "m * (L div m) + L mod m = L" by simp
  have "0 \<le> L mod m" and "L mod m < m" using assms by simp_all
  with eq show "m * (L div m) \<le> L" and "L - m * (L div m) < m" by linarith+
qed

text \<open>
  Claim C8. For a nonnegative distance \<open>L\<close> and \<open>n \<ge> 0\<close> routers, the uniform
  distribution returns \<open>n + 1\<close> segment lengths (the single segment \<open>[L]\<close> when
  \<open>n = 0\<close>) whose sum is at most \<open>L\<close> and falls short of \<open>L\<close> by at most \<open>n + 1\<close>.
\<close>

theorem uniform_segments:
  assumes "0 \<le> L" and "0 \<le> n"
  shows "\<exists>ds. compute_distances_distribution fx L n ''uniform'' = Inr ds
           \<and> length ds = nat (n + 1)
           \<and> (n = 0 \<longrightarrow> ds = [L])
           \<and> sum_list ds \<le> L
           \<and> L - sum_list ds \<le> n + 1"
proof (cases "n = 0")
  case True
  then show ?thesis by (simp add: compute_distances_distribution_def)
next
  case False
  with assms have pos: "0 < n + 1" by simp
  have eq: "compute_distances_distribution fx L n ''uniform''
              = Inr (replicate (nat (n + 1)) (L div (n + 1)))"
    using False pos by (simp add: compute_distances_distribution_def Let_def)
  have s: "sum_list (replicate (nat (n + 1)) (L div (n + 1))) = (n + 1) * (L div (n + 1))"
    using pos by (simp add: sum_list_replicate_int)
  from floor_div_bounds [OF pos, of L] s
  have "sum_list (replicate (nat (n + 1)) (L div (n + 1))) \<le> L"
    and "L - sum_list (replicate (nat (n + 1)) (L div (n + 1))) \<le> n + 1" by simp_all
  with eq False show ?thesis by simp
qed

theorem uniform_segments_witness:
  "(0::int) \<le> 150 \<and> (0::int) \<le> 3
   \<and> (\<exists>ds. compute_distances_distribution no_floats 150 3 ''uniform'' = Inr ds
          \<and> length ds = 4 \<and> sum_list ds \<le> 150 \<and> 150 - sum_list ds \<le> 4)
   \<and> compute_distances_distribution no_floats 7 0 ''uniform'' = Inr [7]"
  using uniform_segments [of 150 3 no_floats] uniform_segments [of 7 0 no_floats] by auto

text \<open>
  Claim C3. The per-attempt success probability is \<open>eta_s * eta_d * 10 powr (- alpha * L / 10)\<close>
  for SR, \<open>(eta_d * 10 powr (- alpha * L / 20))\<^sup>2\<close> for SIM, whatever \<open>eta_s\<close> is, and
  \<open>0.5 * (eta_s * eta_d * 10 powr (- alpha * L / 20))\<^sup>2\<close> for DIM-BK.
\<close>

theorem success_prob_formulas:
  "success_prob LinkArchSr L alpha eta_s eta_d = eta_s * eta_d * 10 powr (- alpha * L / 10)
   \<and> success_prob LinkArchSim L alpha eta_s eta_d = (eta_d * 10 powr (- alpha * L / 20)) ^ 2
   \<and> success_prob LinkArchDimBk L alpha eta_s eta_d
       = 0.5 * (eta_s * eta_d * 10 powr (- alpha * L / 20)) ^ 2"
  by (simp add: LinkArchSr_success_prob_def LinkArchSim_success_prob_def LinkArchDimBk_success_prob_def Let_def)

section \<open>The forwarding information base\<close>

lemma erase_absent: "table tbl k = None \<Longrightarrow> erase tbl k = Inr tbl"
  by (simp add: erase_def dict_getitem_def)

lemma erase_present:
  assumes "table tbl k = Some e" and "req_path_map tbl (request_id e) = Some S0" and "k \<in> S0"
  shows "erase tbl k =
           Inr (tbl\<lparr>table := (table tbl)(k := None),
                    req_path_map := (if S0 - {k} = {} then (req_path_map tbl)(request_id e := None)
                                     else (req_path_map tbl)(request_id e \<mapsto> S0 - {k}))\<rparr>)"
  using assms by (simp add: erase_def dict_getitem_def bind_def Let_def)

lemma consistentD1:
  "consistent tbl \<Longrightarrow> table tbl p = Some e \<Longrightarrow>
     path_id e = p \<and> (\<exists>S0. req_path_map tbl (request_id e) = Some S0 \<and> p \<in> S0)"
  unfolding consistent_def by blast

lemma consistentD2:
  "consistent tbl \<Longrightarrow> req_path_map tbl r = Some S0 \<Longrightarrow>
     S0 \<noteq> {} \<and> (\<forall>p \<in> S0. \<exists>e. table tbl p = Some e \<and> request_id e = r)"
  unfolding consistent_def by blast

lemma consistent_init: "consistent fib_init"
  by (simp add: consistent_def fib_init_def)

lemma erase_consistent:
  assumes c: "consistent tbl"
  shows "\<exists>tbl'. erase tbl k = Inr tbl' \<and> consistent tbl' \<and> table tbl' = (table tbl)(k := None)
            \<and> (\<forall>rid. k \<notin> list_path_ids_by_request_id tbl' rid)"
proof (cases "table tbl k")
  case None
  have "\<forall>rid. k \<notin> list_path_ids_by_request_id tbl rid"
  proof (intro allI notI)
    fix rid assume "k \<in> list_path_ids_by_request_id tbl rid"
    then obtain S0 where "req_path_map tbl rid = Some S0" "k \<in> S0"
      by (auto simp: list_path_ids_by_request_id_def split: option.splits)
    with consistentD2 [OF c] have "\<exists>e. table tbl k = Some e" by blast
    with None show False by simp
  qed
  with None c show ?thesis by (simp add: erase_absent fun_upd_idem)
next
  case (Some e)
  with c obtain S0 where S0: "req_path_map tbl (request_id e) = Some S0" "k \<in> S0"
    by (auto simp: consistent_def)
  let ?tbl' = "tbl\<lparr>table := (table tbl)(k := None),
                    req_path_map := (if S0 - {k} = {} then (req_path_map tbl)(request_id e := None)
                                     else (req_path_map tbl)(request_id e \<mapsto> S0 - {k}))\<rparr>"
  have er: "erase tbl k = Inr ?tbl'" by (rule erase_present [OF Some S0])
  have other: "\<And>rid qs. rid \<noteq> request_id e \<Longrightarrow> req_path_map tbl rid = Some qs \<Longrightarrow> k \<notin> qs"
    using c Some by (fastforce simp: consistent_def)
  have c1: "\<forall>p entry. table ?tbl' p = Some entry \<longrightarrow>
        path_id entry = p \<and> (\<exists>qs. req_path_map ?tbl' (request_id entry) = Some qs \<and> p \<in> qs)"
  proof (intro allI impI)
    fix p entry assume h: "table ?tbl' p = Some entry"
    then have np: "p \<noteq> k" and h0: "table tbl p = Some entry" by (auto split: if_splits)
    from consistentD1 [OF c h0] obtain qs where
      pe: "path_id entry = p" and qs: "req_path_map tbl (request_id entry) = Some qs" "p \<in> qs"
      by blast
    show "path_id entry = p \<and> (\<exists>qs. req_path_map ?tbl' (request_id entry) = Some qs \<and> p \<in> qs)"
    proof (cases "request_id entry = request_id e")
      case True
      with qs S0 have "p \<in> S0 - {k}" using np by simp
      with True pe show ?thesis by auto
    next
      case False
      with qs pe show ?thesis by auto
    qed
  qed
  have c2: "\<forall>rid qs. req_path_map ?tbl' rid = Some qs \<longrightarrow>
        qs \<noteq> {} \<and> (\<forall>p \<in> qs. \<exists>entry. table ?tbl' p = Some entry \<and> request_id entry = rid)"
  proof (intro allI impI)
    fix rid qs assume q: "req_path_map ?tbl' rid = Some qs"
    show "qs \<noteq> {} \<and> (\<forall>p \<in> qs. \<exists>entry. table ?tbl' p = Some entry \<and> request_id entry = rid)"
    proof (cases "rid = request_id e")
      case True
      with q have qs: "qs = S0 - {k}" "S0 - {k} \<noteq> {}" by (auto split: if_splits)
      moreover have "\<forall>p\<in>S0. \<exists>entry. table tbl p = Some entry \<and> request_id entry = rid"
        using c S0 True by (auto simp: consistent_def)
      ultimately show ?thesis by auto
    next
      case False
      with q have q0: "req_path_map tbl rid = Some qs" by (auto split: if_splits)
      with c have "qs \<noteq> {}" and "\<forall>p\<in>qs. \<exists>entry. table tbl p = Some entry \<and> request_id entry = rid"
        by (auto simp: consistent_def)
      moreover have "k \<notin> qs" using other [OF False q0] .
      ultimately show ?thesis by auto
    qed
  qed
  have c': "consistent ?tbl'" unfolding consistent_def using c1 c2 by blast
  have nolist: "\<forall>rid. k \<notin> list_path_ids_by_request_id ?tbl' rid"
    using other by (auto simp: list_path_ids_by_request_id_def split: option.splits if_splits)
  show ?thesis using er c' nolist by simp
qed

lemma insert_consistent:
  assumes c: "consistent tbl"
  shows "\<exists>tbl'. insert_or_replace tbl entry = Inr tbl' \<and> consistent tbl'
            \<and> table tbl' = (table tbl)(path_id entry \<mapsto> entry)
            \<and> (\<forall>rid. path_id entry \<in> list_path_ids_by_request_id tbl' rid \<longleftrightarrow> rid = request_id entry)"
proof -
  let ?k = "path_id entry" and ?rid = "request_id entry"
  from erase_consistent [OF c, of ?k] obtain fb1 where
    e: "erase tbl ?k = Inr fb1" and c1: "consistent fb1"
    and t1: "table fb1 = (table tbl)(?k := None)"
    and n1: "\<forall>rid. ?k \<notin> list_path_ids_by_request_id fb1 rid" by blast
  let ?paths = "case req_path_map fb1 ?rid of None \<Rightarrow> {} | Some S0 \<Rightarrow> S0"
  let ?tbl' = "fb1\<lparr>table := (table fb1)(?k \<mapsto> entry),
                     req_path_map := (req_path_map fb1)(?rid \<mapsto> insert ?k ?paths)\<rparr>"
  have ins: "insert_or_replace tbl entry = Inr ?tbl'"
    using e by (simp add: insert_or_replace_def bind_def Let_def)
  have a: "\<forall>p en. table ?tbl' p = Some en \<longrightarrow>
        path_id en = p \<and> (\<exists>qs. req_path_map ?tbl' (request_id en) = Some qs \<and> p \<in> qs)"
  proof (intro allI impI)
    fix p en assume h: "table ?tbl' p = Some en"
    show "path_id en = p \<and> (\<exists>qs. req_path_map ?tbl' (request_id en) = Some qs \<and> p \<in> qs)"
    proof (cases "p = ?k")
      case True
      with h show ?thesis by simp
    next
      case False
      with h have "table fb1 p = Some en" by simp
      from consistentD1 [OF c1 this] show ?thesis by (auto split: option.splits)
    qed
  qed
  have b: "\<forall>rid qs. req_path_map ?tbl' rid = Some qs \<longrightarrow>
        qs \<noteq> {} \<and> (\<forall>p \<in> qs. \<exists>en. table ?tbl' p = Some en \<and> request_id en = rid)"
  proof (intro allI impI)
    fix rid qs assume h: "req_path_map ?tbl' rid = Some qs"
    show "qs \<noteq> {} \<and> (\<forall>p \<in> qs. \<exists>en. table ?tbl' p = Some en \<and> request_id en = rid)"
    proof (cases "rid = ?rid")
      case True
      with h have qs: "qs = insert ?k ?paths" by simp
      have "\<forall>p \<in> ?paths. \<exists>en. table fb1 p = Some en \<and> request_id en = ?rid"
        using consistentD2 [OF c1, of ?rid] by (auto split: option.splits)
      with qs True show ?thesis by auto
    next
      case False
      with h have h0: "req_path_map fb1 rid = Some qs" by simp
      from consistentD2 [OF c1 h0] have ne: "qs \<noteq> {}"
        and al: "\<forall>p\<in>qs. \<exists>en. table fb1 p = Some en \<and> request_id en = rid" by blast+
      have "?k \<notin> qs" using n1 h0 by (auto simp: list_path_ids_by_request_id_def split: option.splits)
      with ne al show ?thesis by auto
    qed
  qed
  have c': "consistent ?tbl'" unfolding consistent_def using a b by blast
  have l: "\<forall>rid. ?k \<in> list_path_ids_by_request_id ?tbl' rid \<longleftrightarrow> rid = ?rid"
    using n1 by (auto simp: list_path_ids_by_request_id_def split: option.splits)
  have t: "table ?tbl' = (table tbl)(?k \<mapsto> entry)" using t1 by simp
  show ?thesis using ins c' l t by simp
qed

lemma reachable_consistent: "reachable tbl \<Longrightarrow> consistent tbl"
proof (induction rule: reachable.induct)
  case init
  show ?case by (rule consistent_init)
next
  case (ins tbl entry tbl')
  with insert_consistent [of tbl entry] show ?case by auto
next
  case (del tbl k tbl')
  with erase_consistent [of tbl k] show ?case by auto
qed

text \<open>
  Claim C5. On every table an instance can hold, \<^verbatim>\<open>erase\<close> of an absent path id
  changes nothing, and \<^verbatim>\<open>insert_or_replace\<close> returns a table that maps the path id to
  the new entry, leaves every other path id as it was, and lists the path id in the
  request index under the new entry's request id and under no other.
\<close>

theorem fib_erase_insert:
  assumes "reachable tbl"
  shows "(table tbl k = None \<longrightarrow> erase tbl k = Inr tbl)
       \<and> (\<exists>tbl'. insert_or_replace tbl entry = Inr tbl'
             \<and> table tbl' (path_id entry) = Some entry
             \<and> (\<forall>p. p \<noteq> path_id entry \<longrightarrow> table tbl' p = table tbl p)
             \<and> (\<forall>rid. path_id entry \<in> list_path_ids_by_request_id tbl' rid
                        \<longleftrightarrow> rid = request_id entry))"
proof -
  from insert_consistent [OF reachable_consistent [OF assms], of entry] obtain tbl' where
    "insert_or_replace tbl entry = Inr tbl'" "table tbl' = (table tbl)(path_id entry \<mapsto> entry)"
    "\<forall>rid. path_id entry \<in> list_path_ids_by_request_id tbl' rid \<longleftrightarrow> rid = request_id entry"
    by blast
  then show ?thesis by (auto simp: erase_absent)
qed

lemma insert_fib_init: "insert_or_replace fib_init entry_one = Inr fib_one"
  by (simp add: insert_or_replace_def erase_def dict_getitem_def bind_def fib_init_def fib_one_def entry_one_def Let_def)

lemma reachable_fib_one: "reachable fib_one"
  by (rule reachable.ins [OF reachable.init insert_fib_init])

theorem fib_erase_insert_witness:
  "reachable fib_one \<and> table fib_one 2 = None \<and> erase fib_one 2 = Inr fib_one
   \<and> (\<exists>tbl'. insert_or_replace fib_one entry_two = Inr tbl'
          \<and> table tbl' 1 = Some entry_two
          \<and> table tbl' 2 = table fib_one 2
          \<and> 1 \<in> list_path_ids_by_request_id tbl' 8
          \<and> 1 \<notin> list_path_ids_by_request_id tbl' 7)"
proof -
  have none: "table fib_one 2 = None" by (simp add: fib_one_def)
  have k: "path_id entry_two = 1" and rid: "request_id entry_two = 8"
    by (simp_all add: entry_two_def)
  from fib_erase_insert [OF reachable_fib_one, of 2 entry_two] none
  have er: "erase fib_one 2 = Inr fib_one" by simp
  from fib_erase_insert [OF reachable_fib_one, of 2 entry_two] obtain tbl' where
    i: "insert_or_replace fib_one entry_two = Inr tbl'"
    and t: "table tbl' (path_id entry_two) = Some entry_two"
    and o: "\<forall>p. p \<noteq> path_id entry_two \<longrightarrow> table tbl' p = table fib_one p"
    and l: "\<forall>rid. path_id entry_two \<in> list_path_ids_by_request_id tbl' rid
                \<longleftrightarrow> rid = request_id entry_two"
    by blast
  from o k have o2: "table tbl' 2 = table fib_one 2" by simp
  from l k rid have l8: "1 \<in> list_path_ids_by_request_id tbl' 8"
    and l7: "1 \<notin> list_path_ids_by_request_id tbl' 7" by simp_all
  from t k have t1: "table tbl' 1 = Some entry_two" by simp
  show ?thesis using reachable_fib_one none er i t1 o2 l8 l7 by blast
qed

text \<open>
  Claim C10. \<^verbatim>\<open>get\<close> returns the stored entry when the path id is present and raises
  IndexError, not KeyError, when it is absent; both indices are left as they were.
\<close>

theorem fib_get:
  "(table tbl k = Some entry \<longrightarrow> get tbl k = (Inr entry, tbl))
   \<and> (table tbl k = None \<longrightarrow> get tbl k = (Inl IndexError, tbl))"
  by (simp add: get_def dict_getitem_def)

theorem fib_get_witness:
  "table fib_one 1 = Some entry_one \<and> get fib_one 1 = (Inr entry_one, fib_one)
   \<and> table fib_one 2 = None \<and> get fib_one 2 = (Inl IndexError, fib_one)"
  using fib_get [of fib_one 1 entry_one] fib_get [of fib_one 2 entry_one]
  by (simp add: fib_one_def)

section \<open>The link layer\<close>

lemma find_slot_Some:
  "find_slot P i sls = Some k \<Longrightarrow> i \<le> k \<and> k - i < length sls \<and> P (sls ! (k - i))"
proof (induction sls arbitrary: i)
  case Nil
  then show ?case by simp
next
  case (Cons sl sls)
  show ?case
  proof (cases "P sl")
    case True
    with Cons.prems show ?thesis by simp
  next
    case False
    with Cons.prems have "find_slot P (Suc i) sls = Some k" by simp
    from Cons.IH [OF this] have "Suc i \<le> k" "k - Suc i < length sls" "P (sls ! (k - Suc i))"
      by simp_all
    moreover from \<open>Suc i \<le> k\<close> have "k - i = Suc (k - Suc i)" by simp
    ultimately show ?thesis by simp
  qed
qed

lemma generate_entanglement_full:
  assumes "fst (mem_write (memories s ! qmemory) (generate_epr s uuid next_hop) None address) = None"
  shows "generate_entanglement s uuid qchannel next_hop qmemory address = s"
proof -
  from assms have "mem_write (memories s ! qmemory) (generate_epr s uuid next_hop) None address
      = (None, memories s ! qmemory)"
    by (auto simp: mem_write_def split: option.splits)
  then show ?thesis
    by (simp add: generate_entanglement_def set_memory_def)
qed

lemma mem_write_fails:
  "fst (mem_write m e p a) = None \<Longrightarrow> mem_write m e p a = (None, m)"
  by (auto simp: mem_write_def split: option.splits)

lemma handle_distribution_full:
  assumes "\<not> ext_phase_is_over s"
    and "cchannels s (other_end s (qc_node_list qchannel)) = Some cchannel"
    and "\<not> is_decoherenced epr"
    and "memory_named 0 (memories s) (qc_name qchannel) = Inr qmemory"
    and "fst (mem_write (memories s ! qmemory) epr (epr_path_id epr) None) = None"
  shows "handle_distribution s qchannel epr
           = Inr (send_herald s ''epr_failed'' epr (other_end s (qc_node_list qchannel)))"
  using assms(1-4) mem_write_fails [OF assms(5)]
  by (simp add: handle_distribution_def bind_def set_memory_def Let_def)

lemma other_end_sender:
  assumes "node_list = (sender, own s) \<or> node_list = (own s, sender)"
  shows "other_end s node_list = sender"
  using assms by (auto simp: other_end_def)

text \<open>
  Claim C4. When the write of \<^verbatim>\<open>generate_entanglement\<close> returns no qubit, nothing is
  sent on the quantum channel and no classical message is emitted. When a half-EPR
  arrives on a quantum channel that joins the receiver and the sending node, in either
  order of its two endpoints, and the write of \<^verbatim>\<open>handle_distribution\<close> returns
  \<^verbatim>\<open>None\<close>, the receiver sends one \<^verbatim>\<open>epr_failed\<close> message with the pair's path id and
  name, from itself to the sending node, over the classic channel to that node, and
  does nothing else.
\<close>

theorem memory_full_failure:
  "(fst (mem_write (memories s ! qmemory) (generate_epr s uuid next_hop) None address) = None
      \<longrightarrow> qsent (generate_entanglement s uuid qchannel next_hop qmemory address) = qsent s
        \<and> csent (generate_entanglement s uuid qchannel next_hop qmemory address) = csent s)
   \<and> (\<not> ext_phase_is_over s
        \<and> (qc_node_list qchannel = (sender, own s) \<or> qc_node_list qchannel = (own s, sender))
        \<and> cchannels s sender = Some cchannel
        \<and> \<not> is_decoherenced epr
        \<and> memory_named 0 (memories s) (qc_name qchannel) = Inr qmemory
        \<and> fst (mem_write (memories s ! qmemory) epr (epr_path_id epr) None) = None
      \<longrightarrow> (\<exists>s'. handle_distribution s qchannel epr = Inr s'
             \<and> csent s' = csent s @
                 [ClassicSend
                    (ClassicPacket
                       (Herald \<lparr>h_cmd = ''epr_failed'', h_path_id = epr_path_id epr,
                                h_epr_id = name epr\<rparr>)
                       (own s) sender)
                    sender None]
             \<and> qsent s' = qsent s \<and> events s' = events s \<and> memories s' = memories s))"
proof -
  have p1: "qsent (generate_entanglement s uuid qchannel next_hop qmemory address) = qsent s
        \<and> csent (generate_entanglement s uuid qchannel next_hop qmemory address) = csent s"
    if "fst (mem_write (memories s ! qmemory) (generate_epr s uuid next_hop) None address) = None"
    using generate_entanglement_full [OF that] by simp
  have p2: "\<exists>s'. handle_distribution s qchannel epr = Inr s'
             \<and> csent s' = csent s @
                 [ClassicSend
                    (ClassicPacket
                       (Herald \<lparr>h_cmd = ''epr_failed'', h_path_id = epr_path_id epr,
                                h_epr_id = name epr\<rparr>)
                       (own s) sender)
                    sender None]
             \<and> qsent s' = qsent s \<and> events s' = events s \<and> memories s' = memories s"
    if a: "\<not> ext_phase_is_over s"
      and n: "qc_node_list qchannel = (sender, own s) \<or> qc_node_list qchannel = (own s, sender)"
      and c: "cchannels s sender = Some cchannel"
      and d: "\<not> is_decoherenced epr"
      and m: "memory_named 0 (memories s) (qc_name qchannel) = Inr qmemory"
      and w: "fst (mem_write (memories s ! qmemory) epr (epr_path_id epr) None) = None"
  proof -
    have o: "other_end s (qc_node_list qchannel) = sender" by (rule other_end_sender [OF n])
    from c o have c': "cchannels s (other_end s (qc_node_list qchannel)) = Some cchannel" by simp
    from handle_distribution_full [OF a c' d m w] o show ?thesis by (simp add: send_herald_def)
  qed
  from p1 p2 show ?thesis by blast
qed

lemma node_S_write_full:
  "fst (mem_write (memories node_S ! 0) e p None) = None"
  by (cases p) (simp_all add: mem_write_def write_candidate_def node_S_def mem_S_R_def is_free_def)

theorem memory_full_failure_witness:
  "fst (mem_write (memories node_S ! 0) (generate_epr node_S ''u1'' ''R'') None None) = None
   \<and> qsent (generate_entanglement node_S ''u1'' ch_S_R ''R'' 0 None) = []
   \<and> csent (generate_entanglement node_S ''u1'' ch_S_R ''R'' 0 None) = []
   \<and> fst (mem_write (memories node_S ! 0) epr_e2 (epr_path_id epr_e2) None) = None
   \<and> qc_node_list ch_S_R = (own node_S, ''R'')
   \<and> (\<exists>s'. handle_distribution node_S ch_S_R epr_e2 = Inr s'
          \<and> csent s' = [ClassicSend
                    (ClassicPacket
                       (Herald \<lparr>h_cmd = ''epr_failed'', h_path_id = Some 0, h_epr_id = ''e2''\<rparr>)
                       ''S'' ''R'')
                    ''R'' None])
   \<and> qc_node_list ch_R_S = (''R'', own node_S)
   \<and> (\<exists>s'. handle_distribution node_S ch_R_S epr_e2 = Inr s'
          \<and> csent s' = [ClassicSend
                    (ClassicPacket
                       (Herald \<lparr>h_cmd = ''epr_failed'', h_path_id = Some 0, h_epr_id = ''e2''\<rparr>)
                       ''S'' ''R'')
                    ''R'' None])"
proof -
  have a: "\<not> ext_phase_is_over node_S" by (simp add: ext_phase_is_over_def node_S_def)
  have n1: "qc_node_list ch_S_R = (own node_S, ''R'')" by (simp add: node_S_def ch_S_R_def)
  have n2: "qc_node_list ch_R_S = (''R'', own node_S)" by (simp add: node_S_def ch_R_S_def)
  have b: "cchannels node_S ''R'' = Some \<lparr>cc_delay = 0.0001\<rparr>" by (simp add: node_S_def)
  have c: "\<not> is_decoherenced epr_e2" by (simp add: epr_e2_def)
  have d1: "memory_named 0 (memories node_S) (qc_name ch_S_R) = Inr 0"
    by (simp add: node_S_def ch_S_R_def mem_S_R_def)
  have d2: "memory_named 0 (memories node_S) (qc_name ch_R_S) = Inr 0"
    by (simp add: node_S_def ch_R_S_def mem_S_R_def)
  note w1 = node_S_write_full [of "generate_epr node_S ''u1'' ''R''" None]
  note w2 = node_S_write_full [of epr_e2 "epr_path_id epr_e2"]
  have v: "qsent node_S = []" "csent node_S = []" "own node_S = ''S''"
    "epr_path_id epr_e2 = Some 0" "name epr_e2 = ''e2''"
    by (simp_all add: node_S_def epr_e2_def)
  from memory_full_failure [of node_S 0 "''u1''" "''R''" None ch_S_R "''R''"
      "\<lparr>cc_delay = 0.0001\<rparr>" epr_e2] a n1 b c d1 w1 w2
  have g: "qsent (generate_entanglement node_S ''u1'' ch_S_R ''R'' 0 None) = qsent node_S
        \<and> csent (generate_entanglement node_S ''u1'' ch_S_R ''R'' 0 None) = csent node_S"
    and h1: "\<exists>s'. handle_distribution node_S ch_S_R epr_e2 = Inr s'
             \<and> csent s' = csent node_S @
                 [ClassicSend
                    (ClassicPacket
                       (Herald \<lparr>h_cmd = ''epr_failed'', h_path_id = epr_path_id epr_e2,
                                h_epr_id = name epr_e2\<rparr>)
                       (own node_S) ''R'')
                    ''R'' None]
             \<and> qsent s' = qsent node_S \<and> events s' = events node_S
             \<and> memories s' = memories node_S"
    by blast+
  from memory_full_failure [of node_S 0 "''u1''" "''R''" None ch_R_S "''R''"
      "\<lparr>cc_delay = 0.0001\<rparr>" epr_e2] a n2 b c d2 w2
  have h2: "\<exists>s'. handle_distribution node_S ch_R_S epr_e2 = Inr s'
             \<and> csent s' = csent node_S @
                 [ClassicSend
                    (ClassicPacket
                       (Herald \<lparr>h_cmd = ''epr_failed'', h_path_id = epr_path_id epr_e2,
                                h_epr_id = name epr_e2\<rparr>)
                       (own node_S) ''R'')
                    ''R'' None]
             \<and> qsent s' = qsent node_S \<and> events s' = events node_S
             \<and> memories s' = memories node_S"
    by blast
  from g h1 h2 v w1 w2 n1 n2 show ?thesis by auto
qed

section \<open>The proactive forwarder\<close>

lemma mem_get_Address:
  assumes "0 \<le> a" and "a < capacity m" and "storage m ! nat a = (q, Some e)"
  shows "mem_get m (Address a) = Some (a, q, e)"
  using assms by (simp add: mem_get_def mem_search_def)

lemma mem_read_Address:
  assumes "0 \<le> a" and "a < capacity m" and "storage m ! nat a = (q, Some e)"
  shows "mem_read m (Address a) = (Some (a, q, e), m\<lparr>storage := (storage m)[nat a := (q, None)]\<rparr>)"
  using mem_get_Address [OF assms] by (simp add: mem_read_def)

lemma to_state_slot:
  assumes "0 \<le> a" and "a < capacity m" and "storage m ! nat a = (q, d)"
  shows "to_state st m a = m\<lparr>storage := (storage m)[nat a := (q\<lparr>fsm := st\<rparr>, d)]\<rparr>"
  using assms by (simp add: to_state_def)

lemma read_and_release_slot:
  assumes "0 \<le> a" and "a < capacity m" and "storage m ! nat a = (q, Some e)"
  shows "read_and_release m a = m\<lparr>storage := (storage m)[nat a := (q\<lparr>fsm := RELEASED\<rparr>, None)]\<rparr>"
proof -
  let ?m1 = "m\<lparr>storage := (storage m)[nat a := (q, None)]\<rparr>"
  have r: "snd (mem_read m (Address a)) = ?m1" using mem_read_Address [OF assms] by simp
  have c: "a < capacity ?m1" using assms(2) by (simp add: capacity_def)
  have n: "nat a < length (storage m)" using assms(1,2) by (simp add: capacity_def)
  have s: "storage ?m1 ! nat a = (q, None)" using n by simp
  show ?thesis unfolding read_and_release_def r
    using to_state_slot [OF assms(1) c s, of RELEASED] by simp
qed

lemma eligible_end_node_result:
  assumes "0 \<le> qubit" and "qubit < capacity (memories s ! qmem)"
    and "storage (memories s ! qmem) ! nat qubit = (q, Some e)"
  shows "eligible_end_node s qmem qubit =
           Inr (s\<lparr>memories := (memories s)
                      [qmem := (memories s ! qmem)
                         \<lparr>storage := (storage (memories s ! qmem))
                                       [nat qubit := (q\<lparr>fsm := RELEASED\<rparr>, None)]\<rparr>],
                   e2e_count := e2e_count s + 1,
                   events := events s @
                      [QubitReleasedEvent qubit (own s = ''S'') (tc s)
                         (mem_name (memories s ! qmem))]\<rparr>)"
proof -
  let ?m = "memories s ! qmem"
  let ?m1 = "?m\<lparr>storage := (storage ?m)[nat qubit := (q, None)]\<rparr>"
  have r: "mem_read ?m (Address qubit) = (Some (qubit, q, e), ?m1)"
    by (rule mem_read_Address [OF assms])
  have c: "qubit < capacity ?m1" using assms(2) by (simp add: capacity_def)
  have n: "nat qubit < length (storage ?m)" using assms(1,2) by (simp add: capacity_def)
  have s1: "storage ?m1 ! nat qubit = (q, None)" using n by simp
  have t: "to_state RELEASED ?m1 qubit
             = ?m\<lparr>storage := (storage ?m)[nat qubit := (q\<lparr>fsm := RELEASED\<rparr>, None)]\<rparr>"
    using to_state_slot [OF assms(1) c s1, of RELEASED] by simp
  show ?thesis
    by (simp add: eligible_end_node_def r t Let_def set_memory_def add_event_def)
qed

text \<open>
  What \<^verbatim>\<open>eligible\<close> does at an end node of the path (index 0 or the last index of the
  path vector) with a qubit that holds its pair, past the guard of the phase: the slot
  is emptied and its qubit released, \<open>e2e_count\<close> grows by one, and one
  \<^verbatim>\<open>QubitReleasedEvent\<close> is added, flagged by the comparison of the node's name with
  \<^verbatim>\<open>'S'\<close>. Nothing else of the node changes.
\<close>

lemma end_node_consumes:
  assumes "\<not> phase_is_over s"
    and "index (e_path_vector fib_entry) (own s) = Inr own_idx"
    and "own_idx = 0 \<or> Suc own_idx = length (e_path_vector fib_entry)"
    and "0 \<le> qubit" and "qubit < capacity (memories s ! qmem)"
    and "storage (memories s ! qmem) ! nat qubit = (q, Some e)"
  shows "eligible swapping s qmem qubit fib_entry =
           Inr (s\<lparr>memories := (memories s)
                      [qmem := (memories s ! qmem)
                         \<lparr>storage := (storage (memories s ! qmem))
                                       [nat qubit := (q\<lparr>fsm := RELEASED\<rparr>, None)]\<rparr>],
                   e2e_count := e2e_count s + 1,
                   events := events s @
                      [QubitReleasedEvent qubit (own s = ''S'') (tc s)
                         (mem_name (memories s ! qmem))]\<rparr>)"
proof -
  from assms(3) have n: "\<not> (0 < own_idx \<and> int own_idx < int (length (e_path_vector fib_entry)) - 1)"
    by auto
  have "eligible swapping s qmem qubit fib_entry = eligible_end_node s qmem qubit"
    unfolding eligible_def bind_def using assms(1,2) n by (simp only: if_False sum.case)
  with eligible_end_node_result [OF assms(4-6)] show ?thesis by simp
qed

text \<open>
  Claim C2. A qubit that becomes eligible at an end node of its path is read out and
  released, \<open>e2e_count\<close> grows by one, and the \<^verbatim>\<open>QubitReleasedEvent\<close> carries
  \<open>e2e = True\<close> if and only if the node is the source endpoint of the path. The source
  does not do the last part: it sets the flag to \<^verbatim>\<open>self.own.name == 'S'\<close>. At the source
  \<open>A\<close> of the path \<open>A, R, D\<close> (index 0) the slot is read out and released and the
  count grows, but the event is flagged \<open>False\<close>; at the destination \<open>S\<close> of the path
  \<open>D, R, S\<close> (last index) the event is flagged \<open>True\<close>.
\<close>

theorem end_node_flag_by_name:
  "index (e_path_vector path_A_R_D) (own node_A) = Inr 0
   \<and> eligible never_swaps node_A 0 0 path_A_R_D =
       Inr (node_A\<lparr>memories := [\<lparr>mem_name = ''q_S_R'',
                                   storage = [(\<lparr>pid = Some 0, fsm = RELEASED\<rparr>, None)]\<rparr>],
                    e2e_count := 1,
                    events := [QubitReleasedEvent 0 False 0 ''q_S_R'']\<rparr>)
   \<and> index (e_path_vector path_D_R_S) (own node_S) = Inr 2
   \<and> Suc 2 = length (e_path_vector path_D_R_S)
   \<and> eligible never_swaps node_S 0 0 path_D_R_S =
       Inr (node_S\<lparr>memories := [\<lparr>mem_name = ''q_S_R'',
                                   storage = [(\<lparr>pid = Some 0, fsm = RELEASED\<rparr>, None)]\<rparr>],
                    e2e_count := 1,
                    events := [QubitReleasedEvent 0 True 0 ''q_S_R'']\<rparr>)"
proof -
  have a: "\<not> phase_is_over node_A" "\<not> phase_is_over node_S"
    by (simp_all add: phase_is_over_def node_A_def node_S_def)
  have b: "index (e_path_vector path_A_R_D) (own node_A) = Inr 0"
    by (simp add: index_def path_A_R_D_def node_A_def)
  have b': "index (e_path_vector path_D_R_S) (own node_S) = Inr 2"
    by (simp add: index_def path_D_R_S_def node_S_def)
  have c: "(0::nat) = 0 \<or> Suc 0 = length (e_path_vector path_A_R_D)" by simp
  have l: "Suc 2 = length (e_path_vector path_D_R_S)" by (simp add: path_D_R_S_def)
  then have c': "(2::nat) = 0 \<or> Suc 2 = length (e_path_vector path_D_R_S)" by simp
  have d: "(0::int) \<le> 0" by simp
  have e: "0 < capacity (memories node_A ! 0)" "0 < capacity (memories node_S ! 0)"
    by (simp_all add: capacity_def node_A_def node_S_def mem_S_R_def)
  have f: "storage (memories node_A ! 0) ! nat 0 = (\<lparr>pid = Some 0, fsm = ENTANGLED\<rparr>, Some epr_e1)"
    "storage (memories node_S ! 0) ! nat 0 = (\<lparr>pid = Some 0, fsm = ENTANGLED\<rparr>, Some epr_e1)"
    by (simp_all add: node_A_def node_S_def mem_S_R_def)
  from end_node_consumes [OF a(1) b c d e(1) f(1), of never_swaps]
  have g: "eligible never_swaps node_A 0 0 path_A_R_D =
       Inr (node_A\<lparr>memories := [\<lparr>mem_name = ''q_S_R'',
                                   storage = [(\<lparr>pid = Some 0, fsm = RELEASED\<rparr>, None)]\<rparr>],
                    e2e_count := 1,
                    events := [QubitReleasedEvent 0 False 0 ''q_S_R'']\<rparr>)"
    by (simp add: node_A_def node_S_def mem_S_R_def)
  from end_node_consumes [OF a(2) b' c' d e(2) f(2), of never_swaps]
  have g': "eligible never_swaps node_S 0 0 path_D_R_S =
       Inr (node_S\<lparr>memories := [\<lparr>mem_name = ''q_S_R'',
                                   storage = [(\<lparr>pid = Some 0, fsm = RELEASED\<rparr>, None)]\<rparr>],
                    e2e_count := 1,
                    events := [QubitReleasedEvent 0 True 0 ''q_S_R'']\<rparr>)"
    by (simp add: node_S_def mem_S_R_def)
  from b b' l g g' show ?thesis by blast
qed

lemma mem_get_Key_Some:
  assumes "mem_get m (Key n) = Some (a, q, e)"
  shows "0 \<le> a \<and> a < capacity m \<and> storage m ! nat a = (q, Some e) \<and> name e = n"
proof -
  from assms obtain i where i: "find_slot (holds_named n) 0 (storage m) = Some i"
    and a: "a = int i" and q: "q = fst (storage m ! i)" and e: "snd (storage m ! i) = Some e"
    by (auto simp: mem_get_def mem_search_def split: option.splits)
  from find_slot_Some [OF i] have l: "i < length (storage m)" and h: "holds_named n (storage m ! i)"
    by simp_all
  from h e have "name e = n" by (simp add: holds_named_def)
  moreover have "storage m ! nat a = (q, Some e)" using a q e by (simp add: prod_eq_iff)
  ultimately show ?thesis using a l by (simp add: capacity_def)
qed

lemma get_memory_qubit_from_Some:
  "get_memory_qubit_from i qms n = Some (k, a) \<Longrightarrow>
     i \<le> k \<and> k - i < length qms \<and> (\<exists>q e. mem_get (qms ! (k - i)) (Key n) = Some (a, q, e))"
proof (induction qms arbitrary: i)
  case Nil
  then show ?case by simp
next
  case (Cons qm qms)
  show ?case
  proof (cases "mem_get qm (Key n)")
    case None
    with Cons.prems have "get_memory_qubit_from (Suc i) qms n = Some (k, a)" by simp
    from Cons.IH [OF this] obtain q e where "Suc i \<le> k" "k - Suc i < length qms"
      "mem_get (qms ! (k - Suc i)) (Key n) = Some (a, q, e)" by blast
    moreover from \<open>Suc i \<le> k\<close> have "k - i = Suc (k - Suc i)" by simp
    ultimately show ?thesis by simp
  next
    case (Some res)
    with Cons.prems have "k = i" "a = fst res" by simp_all
    with Some show ?thesis by (cases res) auto
  qed
qed

lemma get_memory_qubit_Some:
  assumes "get_memory_qubit s n = Some (qmem, qubit)"
  shows "\<exists>q e. qmem < length (memories s) \<and> 0 \<le> qubit \<and> qubit < capacity (memories s ! qmem)
           \<and> storage (memories s ! qmem) ! nat qubit = (q, Some e) \<and> name e = n"
proof -
  from get_memory_qubit_from_Some [OF assms [unfolded get_memory_qubit_def]]
  obtain q e where "qmem < length (memories s)"
    and "mem_get (memories s ! qmem) (Key n) = Some (qubit, q, e)" by auto
  with mem_get_Key_Some [of "memories s ! qmem" n qubit q e] show ?thesis by blast
qed

lemma release_qubit_result:
  assumes "0 \<le> qubit" and "qubit < capacity (memories s ! qmem)"
    and "storage (memories s ! qmem) ! nat qubit = (q, Some e)"
  shows "release_qubit s qmem qubit =
           s\<lparr>memories := (memories s)
                 [qmem := (memories s ! qmem)
                    \<lparr>storage := (storage (memories s ! qmem))
                                  [nat qubit := (q\<lparr>fsm := RELEASED\<rparr>, None)]\<rparr>],
              events := events s @
                 [QubitReleasedEvent qubit False (tc s) (mem_name (memories s ! qmem))]\<rparr>"
  by (simp add: release_qubit_def read_and_release_slot [OF assms] Let_def set_memory_def
      add_event_def)

text \<open>
  Claim C1, as amended. Unless the node is in SYNC mode outside its INTERNAL phase, a
  SWAP\_UPDATE with no new pair whose destination is the receiving node, whose rank is
  at least the sender's, and for whose pair \<^verbatim>\<open>get_memory_qubit\<close> still finds a slot,
  empties that slot, moves its qubit to the released state and adds one
  \<^verbatim>\<open>QubitReleasedEvent\<close> for it at the current time; no other slot changes.
\<close>

theorem swap_update_failure_releases:
  assumes "su_cmd msg = ''SWAP_UPDATE''"
    and "\<not> phase_is_over s"
    and "su_new_epr msg = None"
    and "su_destination msg = own s"
    and "fib s (su_path_id msg) = Some fib_entry"
    and "index (e_path_vector fib_entry) (su_swapping_node msg) = Inr sender_idx"
    and "getitem (e_swap_sequence fib_entry) (int sender_idx) = Inr sender_rank"
    and "index (e_path_vector fib_entry) (own s) = Inr own_idx"
    and "getitem (e_swap_sequence fib_entry) (int own_idx) = Inr own_rank"
    and "own_rank \<ge> sender_rank"
    and "get_memory_qubit s (su_epr msg) = Some (qmem, qubit)"
  shows "\<exists>s' q e. handle_signaling swapping s msg packet_dest = Inr s'
           \<and> qmem < length (memories s) \<and> 0 \<le> qubit \<and> qubit < capacity (memories s ! qmem)
           \<and> storage (memories s ! qmem) ! nat qubit = (q, Some e) \<and> name e = su_epr msg
           \<and> memories s' = (memories s)
                 [qmem := (memories s ! qmem)
                    \<lparr>storage := (storage (memories s ! qmem))
                                  [nat qubit := (q\<lparr>fsm := RELEASED\<rparr>, None)]\<rparr>]
           \<and> events s' = events s @
                 [QubitReleasedEvent qubit False (tc s) (mem_name (memories s ! qmem))]"
proof -
  from get_memory_qubit_Some [OF assms(11)] obtain q e where
    r: "0 \<le> qubit" "qubit < capacity (memories s ! qmem)"
       "storage (memories s ! qmem) ! nat qubit = (q, Some e)" and n: "name e = su_epr msg"
    and l: "qmem < length (memories s)"
    by blast
  let ?pop = "s\<lparr>parallel_swappings := (parallel_swappings s)(su_epr msg := None)\<rparr>"
  have f: "failed_or_decohered s msg" "failed_or_decohered ?pop msg"
    using assms(3) by (simp_all add: failed_or_decohered_def)
  have rp: "0 \<le> qubit" "qubit < capacity (memories ?pop ! qmem)"
       "storage (memories ?pop ! qmem) ! nat qubit = (q, Some e)" using r by simp_all
  have h: "handle_signaling swapping s msg packet_dest =
      Inr (release_qubit (if own_rank > sender_rank then s else ?pop) qmem qubit)"
    using assms(1-11) f by (auto simp: handle_signaling_def bind_def Let_def)
  show ?thesis
  proof (cases "own_rank > sender_rank")
    case True
    with h release_qubit_result [OF r] r n l show ?thesis by simp
  next
    case False
    with h release_qubit_result [OF rp] r n l show ?thesis by simp
  qed
qed

theorem swap_update_failure_releases_witness:
  "su_cmd su_failed = ''SWAP_UPDATE'' \<and> \<not> phase_is_over node_S \<and> su_new_epr su_failed = None
   \<and> su_destination su_failed = own node_S
   \<and> get_memory_qubit node_S (su_epr su_failed) = Some (0, 0)
   \<and> (\<exists>s'. handle_signaling never_swaps node_S su_failed ''S'' = Inr s'
          \<and> memories s' = [\<lparr>mem_name = ''q_S_R'',
                              storage = [(\<lparr>pid = Some 0, fsm = RELEASED\<rparr>, None)]\<rparr>]
          \<and> events s' = [QubitReleasedEvent 0 False 0 ''q_S_R''])
   \<and> su_cmd su_parallel_failed = ''SWAP_UPDATE'' \<and> \<not> phase_is_over node_R2_before
   \<and> su_new_epr su_parallel_failed = None
   \<and> su_destination su_parallel_failed = own node_R2_before
   \<and> get_memory_qubit node_R2_before (su_epr su_parallel_failed) = Some (0, 0)
   \<and> (\<exists>s'. handle_signaling never_swaps node_R2_before su_parallel_failed ''R2'' = Inr s'
          \<and> memories s' = [empty_memory ''q_R1_R2'', empty_memory ''q_R2_R3'']
          \<and> events s' = [QubitReleasedEvent 0 False 0 ''q_R1_R2''])"
proof -
  have a: "su_cmd su_failed = ''SWAP_UPDATE''" by (simp add: su_failed_def)
  have b: "\<not> phase_is_over node_S" by (simp add: phase_is_over_def node_S_def)
  have c: "su_new_epr su_failed = None" by (simp add: su_failed_def)
  have d: "su_destination su_failed = own node_S" by (simp add: su_failed_def node_S_def)
  have e: "fib node_S (su_path_id su_failed) = Some path_S_R_D"
    by (simp add: su_failed_def node_S_def)
  have f: "index (e_path_vector path_S_R_D) (su_swapping_node su_failed) = Inr 1"
    by (simp add: index_def path_S_R_D_def su_failed_def)
  have g: "getitem (e_swap_sequence path_S_R_D) (int 1) = Inr 0"
    by (simp add: getitem_def path_S_R_D_def)
  have h: "index (e_path_vector path_S_R_D) (own node_S) = Inr 0"
    by (simp add: index_def path_S_R_D_def node_S_def)
  have i: "getitem (e_swap_sequence path_S_R_D) (int 0) = Inr 1"
    by (simp add: getitem_def path_S_R_D_def)
  have j: "(1::int) \<ge> 0" by simp
  have k: "get_memory_qubit node_S (su_epr su_failed) = Some (0, 0)"
    by (simp add: get_memory_qubit_def node_S_def mem_S_R_def su_failed_def mem_get_def
        mem_search_def holds_named_def epr_e1_def)
  from swap_update_failure_releases [OF a b c d e f g h i j k, of never_swaps "''S''"]
  obtain s' q e where "handle_signaling never_swaps node_S su_failed ''S'' = Inr s'"
    and "storage (memories node_S ! 0) ! nat 0 = (q, Some e)"
    and "memories s' = (memories node_S)
                 [0 := (memories node_S ! 0)
                    \<lparr>storage := (storage (memories node_S ! 0))
                                  [nat 0 := (q\<lparr>fsm := RELEASED\<rparr>, None)]\<rparr>]"
    and "events s' = events node_S @
                 [QubitReleasedEvent 0 False (tc node_S) (mem_name (memories node_S ! 0))]"
    by blast
  then have first: "\<exists>s'. handle_signaling never_swaps node_S su_failed ''S'' = Inr s'
          \<and> memories s' = [\<lparr>mem_name = ''q_S_R'',
                              storage = [(\<lparr>pid = Some 0, fsm = RELEASED\<rparr>, None)]\<rparr>]
          \<and> events s' = [QubitReleasedEvent 0 False 0 ''q_S_R'']"
    by (auto simp: node_S_def mem_S_R_def)
  have a': "su_cmd su_parallel_failed = ''SWAP_UPDATE''"
    by (simp add: su_parallel_failed_def su_parallel_def)
  have b': "\<not> phase_is_over node_R2_before"
    by (simp add: phase_is_over_def node_R2_before_def node_R2_def)
  have c': "su_new_epr su_parallel_failed = None" by (simp add: su_parallel_failed_def)
  have d': "su_destination su_parallel_failed = own node_R2_before"
    by (simp add: su_parallel_failed_def su_parallel_def node_R2_before_def node_R2_def)
  have e': "fib node_R2_before (su_path_id su_parallel_failed) = Some path_six"
    by (simp add: su_parallel_failed_def su_parallel_def node_R2_before_def node_R2_def)
  have f': "index (e_path_vector path_six) (su_swapping_node su_parallel_failed) = Inr 2"
    by (simp add: index_def path_six_def su_parallel_failed_def su_parallel_def)
  have g': "getitem (e_swap_sequence path_six) (int 2) = Inr 1"
    by (simp add: getitem_def path_six_def)
  have h': "index (e_path_vector path_six) (own node_R2_before) = Inr 3"
    by (simp add: index_def path_six_def node_R2_before_def node_R2_def)
  have i': "getitem (e_swap_sequence path_six) (int 3) = Inr 1"
    by (simp add: getitem_def path_six_def)
  have j': "(1::int) \<ge> 1" by simp
  have k': "get_memory_qubit node_R2_before (su_epr su_parallel_failed) = Some (0, 0)"
    by (simp add: get_memory_qubit_def node_R2_before_def node_R2_def su_parallel_failed_def
        su_parallel_def mem_get_def mem_search_def holds_named_def pair_def)
  from swap_update_failure_releases [OF a' b' c' d' e' f' g' h' i' j' k', of never_swaps "''R2''"]
  obtain s' q e where "handle_signaling never_swaps node_R2_before su_parallel_failed ''R2'' = Inr s'"
    and "storage (memories node_R2_before ! 0) ! nat 0 = (q, Some e)"
    and "memories s' = (memories node_R2_before)
                 [0 := (memories node_R2_before ! 0)
                    \<lparr>storage := (storage (memories node_R2_before ! 0))
                                  [nat 0 := (q\<lparr>fsm := RELEASED\<rparr>, None)]\<rparr>]"
    and "events s' = events node_R2_before @
                 [QubitReleasedEvent 0 False (tc node_R2_before)
                    (mem_name (memories node_R2_before ! 0))]"
    by blast
  then have second: "\<exists>s'. handle_signaling never_swaps node_R2_before su_parallel_failed ''R2'' = Inr s'
          \<and> memories s' = [empty_memory ''q_R1_R2'', empty_memory ''q_R2_R3'']
          \<and> events s' = [QubitReleasedEvent 0 False 0 ''q_R1_R2'']"
    by (auto simp: node_R2_before_def node_R2_def empty_memory_def)
  from a b c d k first a' b' c' d' k' second show ?thesis by blast
qed

text \<open>
  The claim as first stated fails in SYNC mode outside the INTERNAL phase: the handler
  stops at its guard and the slot keeps its pair.
\<close>

theorem swap_update_failure_releases_counterexample:
  "su_cmd su_failed = ''SWAP_UPDATE'' \<and> su_new_epr su_failed = None
   \<and> su_destination su_failed = own node_S_sync_ext
   \<and> get_memory_qubit node_S_sync_ext (su_epr su_failed) = Some (0, 0)
   \<and> handle_signaling never_swaps node_S_sync_ext su_failed ''S'' = Inl NameError"
  by (simp add: handle_signaling_def phase_is_over_def node_S_sync_ext_def node_S_def su_failed_def
      get_memory_qubit_def mem_S_R_def mem_get_def mem_search_def holds_named_def epr_e1_def)

lemma send_swap_update_parallel:
  "send_swap_update s dest msg route delay = Inr s' \<Longrightarrow>
     parallel_swappings s' = parallel_swappings s"
  by (auto simp: send_swap_update_def bind_def split: sum.splits option.splits)

lemma release_qubit_parallel: "parallel_swappings (release_qubit s i a) = parallel_swappings s"
  by (simp add: release_qubit_def Let_def add_event_def set_memory_def)

lemma update_qubit_parallel: "parallel_swappings (snd (update_qubit s i msg)) = parallel_swappings s"
  by (simp add: update_qubit_def set_memory_def split: option.splits)

lemma reconcile_records:
  assumes "reconcile swapping s msg fib_entry own_rank rec = Inr s'"
  shows "parallel_swappings s' k = ((parallel_swappings s)(su_epr msg := None)) k
       \<or> (\<exists>ne. su_new_epr msg = Some ne \<and> k = name ne)"
proof (cases "failed_or_decohered s msg")
  case True
  with assms show ?thesis
    by (auto simp: reconcile_def bind_def Let_def dest!: send_swap_update_parallel
        split: sum.splits)
next
  case False
  then obtain ne where ne: "su_new_epr msg = Some ne"
    by (auto simp: failed_or_decohered_def split: option.splits)
  from assms False ne show ?thesis
    by (auto simp: reconcile_def bind_def Let_def dest!: send_swap_update_parallel
        split: sum.splits option.splits if_splits)
qed

text \<open>
  What the handler does to \<open>parallel_swappings\<close> when the sender has the node's rank:
  every key keeps its record, except the message's \<^verbatim>\<open>epr\<close>, which is popped, and the
  name of the message's new pair.
\<close>

lemma handler_records:
  assumes "handle_signaling swapping s msg packet_dest = Inr s'"
    and "su_cmd msg = ''SWAP_UPDATE''"
    and "su_destination msg = own s"
    and "fib s (su_path_id msg) = Some fib_entry"
    and "index (e_path_vector fib_entry) (su_swapping_node msg) = Inr sender_idx"
    and "getitem (e_swap_sequence fib_entry) (int sender_idx) = Inr rank"
    and "index (e_path_vector fib_entry) (own s) = Inr own_idx"
    and "getitem (e_swap_sequence fib_entry) (int own_idx) = Inr rank"
  shows "parallel_swappings s' k = ((parallel_swappings s)(su_epr msg := None)) k
       \<or> (\<exists>ne. su_new_epr msg = Some ne \<and> k = name ne)"
proof -
  from assms(1,2) have np: "\<not> phase_is_over s"
    by (auto simp: handle_signaling_def split: if_splits)
  show ?thesis
  proof (cases "get_memory_qubit s (su_epr msg)")
    case (Some found)
    obtain qmem qubit where fq: "found = (qmem, qubit)" by (cases found)
    let ?pop = "s\<lparr>parallel_swappings := (parallel_swappings s)(su_epr msg := None)\<rparr>"
    from assms(1-8) np Some fq have
      "s' = release_qubit ?pop qmem qubit \<or> s' = snd (update_qubit ?pop qmem msg)"
      by (auto simp: handle_signaling_def bind_def Let_def split: if_splits)
    then show ?thesis by (auto simp: release_qubit_parallel update_qubit_parallel)
  next
    case None
    show ?thesis
    proof (cases "parallel_swappings s (su_epr msg)")
      case absent: None
      from assms(1-8) np None absent have "s' = s"
        by (auto simp: handle_signaling_def bind_def Let_def)
      with absent show ?thesis by simp
    next
      case (Some rec)
      from assms(1-8) np None Some have "reconcile swapping s msg fib_entry rank rec = Inr s'"
        by (auto simp: handle_signaling_def bind_def Let_def)
      from reconcile_records [OF this] show ?thesis .
    qed
  qed
qed

text \<open>
  Claim C9, the handler's part. Pairs are named by a fresh \<^verbatim>\<open>uuid4\<close>, so the new pair
  of a message is not named like the pair it replaces. When \<^verbatim>\<open>handle_signaling\<close>
  returns from a SWAP\_UPDATE whose destination is the node and whose sender has the
  node's own rank, \<open>parallel_swappings\<close> holds no record under the message's
  \<^verbatim>\<open>epr\<close>, and the record of every key other than the message's \<^verbatim>\<open>epr\<close> and the
  name of the received new pair is what it was before: the handler pops under the
  first and adds under the second only.
\<close>

theorem parallel_record_consumed:
  assumes "handle_signaling swapping s msg packet_dest = Inr s'"
    and "su_cmd msg = ''SWAP_UPDATE''"
    and "su_destination msg = own s"
    and "fib s (su_path_id msg) = Some fib_entry"
    and "index (e_path_vector fib_entry) (su_swapping_node msg) = Inr sender_idx"
    and "getitem (e_swap_sequence fib_entry) (int sender_idx) = Inr rank"
    and "index (e_path_vector fib_entry) (own s) = Inr own_idx"
    and "getitem (e_swap_sequence fib_entry) (int own_idx) = Inr rank"
    and "\<forall>ne. su_new_epr msg = Some ne \<longrightarrow> name ne \<noteq> su_epr msg"
  shows "parallel_swappings s' (su_epr msg) = None
       \<and> (\<forall>k. k \<noteq> su_epr msg \<longrightarrow> (\<forall>ne. su_new_epr msg = Some ne \<longrightarrow> k \<noteq> name ne)
              \<longrightarrow> parallel_swappings s' k = parallel_swappings s k)"
proof (intro conjI allI impI)
  from handler_records [OF assms(1-8), of "su_epr msg"] assms(9)
  show "parallel_swappings s' (su_epr msg) = None" by auto
next
  fix k
  assume "k \<noteq> su_epr msg" and "\<forall>ne. su_new_epr msg = Some ne \<longrightarrow> k \<noteq> name ne"
  with handler_records [OF assms(1-8), of k]
  show "parallel_swappings s' k = parallel_swappings s k" by auto
qed

lemma node_R2_reconciles:
  "handle_signaling always_swaps node_R2 (su_parallel n) ''R2''
   = Inr (node_R2\<lparr>parallel_swappings :=
                     [n \<mapsto> (pair n ''R0'' ''R2'', pair ''e2'' ''R2'' ''R3'', merged_pair n)],
                   csent := [forwarded n]\<rparr>)"
  by (simp add: handle_signaling_def phase_is_over_def node_R2_def su_parallel_def path_six_def
      index_def getitem_def bind_def Let_def get_memory_qubit_def empty_memory_def mem_get_def
      mem_search_def holds_named_def reconcile_def failed_or_decohered_def pair_def
      always_swaps_def send_swap_update_def merged_pair_def forwarded_def)

theorem parallel_record_consumed_witness:
  "handle_signaling always_swaps node_R2 (su_parallel ''n1'') ''R2''
     = Inr (node_R2\<lparr>parallel_swappings :=
                     [''n1'' \<mapsto> (pair ''n1'' ''R0'' ''R2'', pair ''e2'' ''R2'' ''R3'', merged_pair ''n1'')],
                   csent := [forwarded ''n1'']\<rparr>)
   \<and> su_cmd (su_parallel ''n1'') = ''SWAP_UPDATE''
   \<and> su_destination (su_parallel ''n1'') = own node_R2
   \<and> su_epr (su_parallel ''n1'') = ''e1''
   \<and> su_new_epr (su_parallel ''n1'') = Some (pair ''n1'' ''R0'' ''R2'')
   \<and> index (e_path_vector path_six) (su_swapping_node (su_parallel ''n1'')) = Inr 2
   \<and> getitem (e_swap_sequence path_six) (int 2) = Inr 1
   \<and> index (e_path_vector path_six) (own node_R2) = Inr 3
   \<and> getitem (e_swap_sequence path_six) (int 3) = Inr 1
   \<and> parallel_swappings node_R2 ''e1'' \<noteq> None
   \<and> parallel_swappings
        (node_R2\<lparr>parallel_swappings :=
                     [''n1'' \<mapsto> (pair ''n1'' ''R0'' ''R2'', pair ''e2'' ''R2'' ''R3'', merged_pair ''n1'')],
                   csent := [forwarded ''n1'']\<rparr>) ''e1'' = None
   \<and> parallel_swappings
        (node_R2\<lparr>parallel_swappings :=
                     [''n1'' \<mapsto> (pair ''n1'' ''R0'' ''R2'', pair ''e2'' ''R2'' ''R3'', merged_pair ''n1'')],
                   csent := [forwarded ''n1'']\<rparr>) ''e7''
     = parallel_swappings node_R2 ''e7''"
proof -
  note a = node_R2_reconciles [of "''n1''"]
  have b: "su_cmd (su_parallel ''n1'') = ''SWAP_UPDATE''" by (simp add: su_parallel_def)
  have c: "su_destination (su_parallel ''n1'') = own node_R2"
    by (simp add: su_parallel_def node_R2_def)
  have d: "fib node_R2 (su_path_id (su_parallel ''n1'')) = Some path_six"
    by (simp add: su_parallel_def node_R2_def)
  have e: "index (e_path_vector path_six) (su_swapping_node (su_parallel ''n1'')) = Inr 2"
    by (simp add: index_def path_six_def su_parallel_def)
  have f: "getitem (e_swap_sequence path_six) (int 2) = Inr 1"
    by (simp add: getitem_def path_six_def)
  have g: "index (e_path_vector path_six) (own node_R2) = Inr 3"
    by (simp add: index_def path_six_def node_R2_def)
  have h: "getitem (e_swap_sequence path_six) (int 3) = Inr 1"
    by (simp add: getitem_def path_six_def)
  have i: "\<forall>ne. su_new_epr (su_parallel ''n1'') = Some ne \<longrightarrow> name ne \<noteq> su_epr (su_parallel ''n1'')"
    by (simp add: su_parallel_def pair_def)
  have j: "parallel_swappings node_R2 ''e1'' \<noteq> None" by (simp add: node_R2_def)
  have k: "su_epr (su_parallel ''n1'') = ''e1''" by (simp add: su_parallel_def)
  have l: "su_new_epr (su_parallel ''n1'') = Some (pair ''n1'' ''R0'' ''R2'')"
    by (simp add: su_parallel_def)
  have m: "name (pair ''n1'' ''R0'' ''R2'') = ''n1''" by (simp add: pair_def)
  note res = parallel_record_consumed [OF a b c d e f g h i]
  from res k have popped: "parallel_swappings
        (node_R2\<lparr>parallel_swappings :=
                     [''n1'' \<mapsto> (pair ''n1'' ''R0'' ''R2'', pair ''e2'' ''R2'' ''R3'', merged_pair ''n1'')],
                   csent := [forwarded ''n1'']\<rparr>) ''e1'' = None"
    by simp
  from res k l m have kept: "parallel_swappings
        (node_R2\<lparr>parallel_swappings :=
                     [''n1'' \<mapsto> (pair ''n1'' ''R0'' ''R2'', pair ''e2'' ''R2'' ''R3'', merged_pair ''n1'')],
                   csent := [forwarded ''n1'']\<rparr>) ''e7''
     = parallel_swappings node_R2 ''e7''"
    by simp
  from a b c k l e f g h j popped kept show ?thesis by blast
qed

lemma node_R1_swaps: "eligible always_swaps node_R1 1 0 path_four = Inr node_R1_swapped"
  by (simp add: eligible_def phase_is_over_def node_R1_def path_four_def index_def bind_def
      eligible_intermediate_def check_eligible_qubit_def holding_def mem_search_eligible_qubits_def
      mem_get_def mem_search_def capacity_def pair_def swap_and_notify_def Let_def always_swaps_def
      getitem_def send_swap_update_def set_memory_def mem_read_def to_state_def add_event_def
      node_R1_swapped_def empty_memory_def kept_record_def swapped_pair_def su_R1_to_def)

lemma node_R2_updates:
  "handle_signaling always_swaps node_R2_waiting (su_R1_to ''R2'' ''S'' ''e1'') ''R2''
     = Inr node_R2_updated"
  by (simp add: handle_signaling_def phase_is_over_def node_R2_waiting_def node_R1_def
      su_R1_to_def path_four_def index_def getitem_def bind_def Let_def get_memory_qubit_def
      holding_def empty_memory_def mem_get_def mem_search_def holds_named_def
      failed_or_decohered_def pair_def swapped_pair_def update_qubit_def mem_update_def
      set_memory_def node_R2_updated_def)

lemma node_R2_swaps: "eligible always_swaps node_R2_ready 0 0 path_four = Inr node_R2_swapped"
  by (simp add: eligible_def phase_is_over_def node_R2_ready_def node_R2_updated_def
      node_R2_waiting_def node_R1_def path_four_def index_def bind_def
      eligible_intermediate_def check_eligible_qubit_def holding_def mem_search_eligible_qubits_def
      mem_get_def mem_search_def capacity_def pair_def swap_and_notify_def Let_def always_swaps_def
      getitem_def send_swap_update_def set_memory_def mem_read_def to_state_def add_event_def
      node_R2_swapped_def empty_memory_def final_pair_def swapped_pair_def su_R2_to_def)

lemma node_R1_forwards:
  "handle_signaling always_swaps node_R1_swapped (su_R2_to ''S'' ''D'' ''e1+e0'') ''S''
     = Inr (node_R1_swapped\<lparr>csent := csent node_R1_swapped @
              [ClassicSend
                 (ClassicPacket (SwapUpdate ((su_R2_to ''S'' ''D'' ''e1+e0'')\<lparr>su_fwd := True\<rparr>))
                    ''R1'' ''S'')
                 ''S'' None]\<rparr>)"
  by (simp add: handle_signaling_def phase_is_over_def node_R1_swapped_def node_R1_def
      su_R2_to_def path_four_def index_def getitem_def bind_def Let_def send_swap_update_def)

text \<open>
  The last clause of the claim, that the records are always consumed and never leak,
  fails in a run without any loss. On the path \<open>S, R1, R2, D\<close> the router \<open>R1\<close> swaps
  first and keeps a record under \<open>e1\<close> for its same-rank neighbour \<open>R2\<close>. \<open>R2\<close> has
  not swapped: it takes the new pair into its slot, sends nothing, and when it swaps
  later its partners are \<open>S\<close> and \<open>D\<close>. The one message that reaches \<open>R1\<close> is the
  SWAP\_UPDATE of \<open>R2\<close> for \<open>S\<close>, which \<open>R1\<close> forwards. No message for \<open>R1\<close> names
  \<open>e1\<close>, and the record stays.
\<close>

theorem parallel_record_consumed_counterexample:
  "eligible always_swaps node_R1 1 0 path_four = Inr node_R1_swapped
   \<and> parallel_swappings node_R1_swapped ''e1'' = Some kept_record
   \<and> csent node_R1_swapped
       = [ClassicSend (ClassicPacket (SwapUpdate (su_R1_to ''S'' ''R2'' ''e0'')) ''R1'' ''S'')
            ''S'' None,
          ClassicSend (ClassicPacket (SwapUpdate (su_R1_to ''R2'' ''S'' ''e1'')) ''R1'' ''R2'')
            ''R2'' None]
   \<and> handle_signaling always_swaps node_R2_waiting (su_R1_to ''R2'' ''S'' ''e1'') ''R2''
       = Inr node_R2_updated
   \<and> csent node_R2_updated = []
   \<and> eligible always_swaps node_R2_ready 0 0 path_four = Inr node_R2_swapped
   \<and> csent node_R2_swapped
       = [ClassicSend (ClassicPacket (SwapUpdate (su_R2_to ''S'' ''D'' ''e1+e0'')) ''R2'' ''S'')
            ''R1'' None,
          ClassicSend (ClassicPacket (SwapUpdate (su_R2_to ''D'' ''S'' ''e2'')) ''R2'' ''D'')
            ''D'' None]
   \<and> handle_signaling always_swaps node_R1_swapped (su_R2_to ''S'' ''D'' ''e1+e0'') ''S''
       = Inr (node_R1_swapped\<lparr>csent := csent node_R1_swapped @
                [ClassicSend
                   (ClassicPacket (SwapUpdate ((su_R2_to ''S'' ''D'' ''e1+e0'')\<lparr>su_fwd := True\<rparr>))
                      ''R1'' ''S'')
                   ''S'' None]\<rparr>)
   \<and> parallel_swappings
        (node_R1_swapped\<lparr>csent := csent node_R1_swapped @
                [ClassicSend
                   (ClassicPacket (SwapUpdate ((su_R2_to ''S'' ''D'' ''e1+e0'')\<lparr>su_fwd := True\<rparr>))
                      ''R1'' ''S'')
                   ''S'' None]\<rparr>) ''e1''
       = Some kept_record"
proof -
  have a: "parallel_swappings node_R1_swapped ''e1'' = Some kept_record"
    by (simp add: node_R1_swapped_def)
  have b: "csent node_R1_swapped
       = [ClassicSend (ClassicPacket (SwapUpdate (su_R1_to ''S'' ''R2'' ''e0'')) ''R1'' ''S'')
            ''S'' None,
          ClassicSend (ClassicPacket (SwapUpdate (su_R1_to ''R2'' ''S'' ''e1'')) ''R1'' ''R2'')
            ''R2'' None]"
    by (simp add: node_R1_swapped_def)
  have c: "csent node_R2_updated = []"
    by (simp add: node_R2_updated_def node_R2_waiting_def node_R1_def)
  have d: "csent node_R2_swapped
       = [ClassicSend (ClassicPacket (SwapUpdate (su_R2_to ''S'' ''D'' ''e1+e0'')) ''R2'' ''S'')
            ''R1'' None,
          ClassicSend (ClassicPacket (SwapUpdate (su_R2_to ''D'' ''S'' ''e2'')) ''R2'' ''D'')
            ''D'' None]"
    by (simp add: node_R2_swapped_def)
  have e: "parallel_swappings
        (node_R1_swapped\<lparr>csent := csent node_R1_swapped @
                [ClassicSend
                   (ClassicPacket (SwapUpdate ((su_R2_to ''S'' ''D'' ''e1+e0'')\<lparr>su_fwd := True\<rparr>))
                      ''R1'' ''S'')
                   ''S'' None]\<rparr>) ''e1''
       = Some kept_record"
    using a by simp
  from node_R1_swaps a b node_R2_updates c node_R2_swaps d node_R1_forwards e
  show ?thesis by blast
qed

text \<open>
  Claim C6. With mux \<^verbatim>\<open>"B"\<close> and \<^verbatim>\<open>m_v\<close> given, a request for more qubits than the
  memory has free should raise and allocate nothing. The comparison in the source is
  the other way round: a request for 3 qubits from a memory with 2 free slots reserves
  both slots and raises nothing, and a request for 1 qubit raises the exception whose
  message says that not enough qubits are left.
\<close>

theorem allocation_guard_inverted:
  "mem_free (memories node_S_fresh ! 0) = 2
   \<and> compute_qubit_allocation (ins_route (install [3, 1])) [3, 1] (own node_S_fresh)
       = Inr (None, Some 3)
   \<and> map_sum id memories (handle_control node_S_fresh 0 (install [3, 1]))
       = Inr [\<lparr>mem_name = ''q_S_R'',
               storage = [(\<lparr>pid = Some 0, fsm = RELEASED\<rparr>, None),
                          (\<lparr>pid = Some 0, fsm = RELEASED\<rparr>, None)]\<rparr>]
   \<and> compute_qubit_allocation (ins_route (install [1, 1])) [1, 1] (own node_S_fresh)
       = Inr (None, Some 1)
   \<and> handle_control node_S_fresh 0 (install [1, 1])
       = Inl (Exception ''Not enough qubits left for this allocation.'')"
  by (simp add: node_S_fresh_def node_S_def free_memory_def install_def mem_free_def is_free_def
      compute_qubit_allocation_def index_def getitem_def bind_def handle_control_def Let_def
      neighbor_memory_def ch_S_R_def allocate_requested_def numeral_3_eq_3 mem_allocate_def
      set_memory_def add_event_def)

end
